theory Spec2Isabelle
  imports Main "HOL-Library.Sublist"
begin

section \<open>Python values shared by the model\<close>

text \<open>
  The exceptions the modelled code can raise. The bare \<^verbatim>\<open>raise\<close> of \<^verbatim>\<open>do_add\<close>
  has no active exception, which Python 2 reports as a TypeError.
\<close>

datatype py_error = TypeError | IndexError | AttributeError | AssertionError | Raised string

text \<open>\<^verbatim>\<open>gdk.Rectangle\<close>: x, y, width, height.\<close>

record rectangle =
  rect_x :: int
  rect_y :: int
  rect_width :: int
  rect_height :: int

definition Rectangle :: rectangle where
  "Rectangle = \<lparr>rect_x = 0, rect_y = 0, rect_width = 0, rect_height = 0\<rparr>"

text \<open>
  Subscripting a list with an int, \<^verbatim>\<open>xs[i]\<close>: positions from \<^verbatim>\<open>-len(xs)\<close> up to
  \<^verbatim>\<open>-1\<close> are read from the end, anything outside the list is an IndexError.
\<close>

definition py_getitem :: "'a list \<Rightarrow> int \<Rightarrow> py_error + 'a" where
  "py_getitem xs i =
     (if 0 \<le> i \<and> i < int (length xs) then Inr (xs ! nat i)
      else if - int (length xs) \<le> i \<and> i < 0 then Inr (xs ! nat (int (length xs) + i))
      else Inl IndexError)"

text \<open>\<^verbatim>\<open>xs[:k]\<close>: a negative bound counts from the end.\<close>

definition py_slice_to :: "'a list \<Rightarrow> int \<Rightarrow> 'a list" where
  "py_slice_to xs k =
     (if k < 0 then take (nat (int (length xs) + k)) xs else take (nat k) xs)"

text \<open>
  \<^verbatim>\<open>xs.index(a)\<close>: the position of the first element equal to \<^verbatim>\<open>a\<close>; \<open>None\<close> stands for
  the ValueError of a missing element. Tabs are plain objects, compared by identity.
\<close>

fun list_index :: "'a list \<Rightarrow> 'a \<Rightarrow> nat option" where
  "list_index [] a = None"
| "list_index (x # xs) a = (if x = a then Some 0 else map_option Suc (list_index xs a))"


section \<open>dockgroup.py: the tab record and the DockGroup\<close>

datatype state_type = STATE_NORMAL | STATE_PRELIGHT

text \<open>
  \<^verbatim>\<open>_DockGroupTab\<close>. The tab's item is the identity of its DockItem; the four flags are
  the visibility of the item and of the tab's image, label and close button.
\<close>

record DockGroupTab =
  tab_item :: nat
  tab_state :: state_type
  tab_area :: rectangle
  item_visible :: bool
  image_visible :: bool
  label_visible :: bool
  button_visible :: bool

text \<open>
  What can be handed to \<^verbatim>\<open>add\<close> and \<^verbatim>\<open>remove\<close>: a DockItem (by identity), a
  \<^verbatim>\<open>_DockGroupTab\<close> object (by reference), or any other widget.
\<close>

datatype pyobj = DockItem nat | TabObject nat | OtherWidget nat

text \<open>
  The DockGroup. Tabs are objects: \<open>tabs\<close> and \<open>visible_tabs\<close> hold references into
  \<open>tab_store\<close>, so that membership, \<^verbatim>\<open>index\<close> and \<^verbatim>\<open>remove\<close> compare identities and
  a write to \<^verbatim>\<open>tab.area\<close> is seen through both lists. \<open>next_tab\<close> is the reference the
  next \<^verbatim>\<open>_DockGroupTab()\<close> gets. \<open>current_index\<close> is \<open>None\<close> or a natural number: the
  source assigns it \<^verbatim>\<open>None\<close>, \<^verbatim>\<open>0\<close>, \<^verbatim>\<open>len(self._tabs) - 1\<close> on a non-empty list, or
  an \<^verbatim>\<open>item_num\<close> already checked to lie between them. \<open>destroyed\<close> lists the tabs whose
  item, image, label, button and menu item were unparented and destroyed;
  \<open>resize_queued\<close> records \<^verbatim>\<open>queue_resize()\<close>.
\<close>

record DockGroup =
  tabs :: "nat list"
  visible_tabs :: "nat list"
  current_index :: "nat option"
  current_item :: "nat option"
  tab_store :: "nat \<Rightarrow> DockGroupTab"
  next_tab :: nat
  allocation :: rectangle
  decoration_area :: rectangle
  list_button_visible :: bool
  destroyed :: "nat list"
  resize_queued :: bool

definition frame_width :: int where
  "frame_width = 1"

definition spacing :: int where
  "spacing = 3"

definition border_width :: int where
  "border_width = 2"

text \<open>\<^verbatim>\<open>DockGroup.__init__\<close>; \<open>st\<close> is the (empty) object store it starts with.\<close>

definition DockGroup_init :: "(nat \<Rightarrow> DockGroupTab) \<Rightarrow> DockGroup" where
  "DockGroup_init st =
     \<lparr>tabs = [], visible_tabs = [], current_index = None, current_item = None,
      tab_store = st, next_tab = 0, allocation = Rectangle, decoration_area = Rectangle,
      list_button_visible = False, destroyed = [], resize_queued = False\<rparr>"

definition get_n_items :: "DockGroup \<Rightarrow> nat" where
  "get_n_items g = length (tabs g)"

text \<open>
  \<^verbatim>\<open>item_num\<close>: the first tab whose item is the given one, then that tab's position in
  the list; \<open>None\<close> when no tab has the item.
\<close>

definition item_num :: "DockGroup \<Rightarrow> nat \<Rightarrow> nat option" where
  "item_num g it =
     (case List.find (\<lambda>t. tab_item (tab_store g t) = it) (tabs g) of
        None \<Rightarrow> None
      | Some t \<Rightarrow> list_index (tabs g) t)"

definition set_current_item :: "DockGroup \<Rightarrow> int \<Rightarrow> DockGroup" where
  "set_current_item g n =
     (if tabs g \<noteq> [] then
        (let ci = (if n < 0 then 0
                   else if n > int (length (tabs g)) - 1 then length (tabs g) - 1
                   else nat n)
         in g\<lparr>current_index := Some ci,
               current_item := Some (tab_item (tab_store g (tabs g ! ci))),
               resize_queued := True\<rparr>)
      else g\<lparr>current_index := None, current_item := None, resize_queued := True\<rparr>)"

text \<open>
  \<^verbatim>\<open>get_current_item\<close>: the current index when there is a current item, else
  \<^verbatim>\<open>None\<close>.
\<close>

definition get_current_item :: "DockGroup \<Rightarrow> nat option" where
  "get_current_item g = (case current_item g of Some _ \<Rightarrow> current_index g | None \<Rightarrow> None)"

definition get_nth_item :: "DockGroup \<Rightarrow> int \<Rightarrow> nat option" where
  "get_nth_item g n =
     (if n \<ge> 0 \<and> n \<le> int (length (tabs g)) - 1
      then Some (tab_item (tab_store g (tabs g ! nat n))) else None)"

text \<open>
  \<^verbatim>\<open>do_add\<close>. A new tab object is created in state NORMAL with an empty area and
  appended; its child widgets start hidden. The last line selects
  \<^verbatim>\<open>item_num(widget)\<close>; were that \<^verbatim>\<open>None\<close>, Python 2 orders \<^verbatim>\<open>None\<close> below every
  int, so \<^verbatim>\<open>set_current_item\<close> would take its first branch as for a negative number.
\<close>

definition do_add :: "DockGroup \<Rightarrow> pyobj \<Rightarrow> py_error + DockGroup" where
  "do_add g widget =
     (case widget of
        DockItem it \<Rightarrow>
          (let r = next_tab g;
               tab = \<lparr>tab_item = it, tab_state = STATE_NORMAL, tab_area = Rectangle,
                      item_visible = False, image_visible = False,
                      label_visible = False, button_visible = False\<rparr>;
               g1 = g\<lparr>tab_store := (tab_store g)(r := tab), next_tab := Suc r,
                       tabs := tabs g @ [r]\<rparr>
           in Inr (case item_num g1 it of
                     None \<Rightarrow> set_current_item g1 (- 1)
                   | Some i \<Rightarrow> set_current_item g1 (int i)))
      | _ \<Rightarrow> Inl TypeError)"

text \<open>
  \<^verbatim>\<open>do_remove\<close>. Only a DockItem is looked at, and only when there are tabs. An item
  that no tab holds makes \<^verbatim>\<open>item_num\<close> return \<^verbatim>\<open>None\<close>, and \<^verbatim>\<open>self._tabs[None]\<close>
  raises TypeError before anything is changed. In \<^verbatim>\<open>index < self._current_index\<close> a
  current index of \<^verbatim>\<open>None\<close> is below every int.
\<close>

definition do_remove :: "DockGroup \<Rightarrow> pyobj \<Rightarrow> py_error + DockGroup" where
  "do_remove g widget =
     (case widget of
        DockItem it \<Rightarrow>
          (if tabs g \<noteq> [] then
             (case item_num g it of
                None \<Rightarrow> Inl TypeError
              | Some index \<Rightarrow>
                  (let tab = tabs g ! index;
                       vis = (if tab \<in> set (visible_tabs g)
                              then remove1 tab (visible_tabs g) else visible_tabs g);
                       g1 = g\<lparr>visible_tabs := vis, destroyed := destroyed g @ [tab],
                               tabs := remove1 tab (tabs g)\<rparr>;
                       index' = (case current_index g of
                                   Some c \<Rightarrow> if index < c then c - 1 else index
                                 | None \<Rightarrow> index)
                   in Inr (set_current_item g1 (int index'))))
           else Inr g)
      | _ \<Rightarrow> Inr g)"

text \<open>
  \<^verbatim>\<open>gtk.Container.add\<close> and \<^verbatim>\<open>remove\<close> are the toolkit's entry points; they run the
  class's \<^verbatim>\<open>do_add\<close> and \<^verbatim>\<open>do_remove\<close>.
\<close>

definition append_item :: "DockGroup \<Rightarrow> pyobj \<Rightarrow> py_error + DockGroup" where
  "append_item g widget = do_add g widget"

text \<open>
  \<^verbatim>\<open>remove_item\<close>: \<^verbatim>\<open>self.remove(self._tabs[item_num])\<close>. What is handed to
  \<^verbatim>\<open>remove\<close> is the tab object found at the index, not the tab's item. The
  toolkit's own check of the argument of \<^verbatim>\<open>remove\<close>, which turns down an object that
  is no widget, is outside the sources and not modelled; with it the call raises
  where the model returns, and the group is untouched either way.
\<close>

definition remove_item :: "DockGroup \<Rightarrow> int \<Rightarrow> py_error + DockGroup" where
  "remove_item g n =
     (case py_getitem (tabs g) n of
        Inl e \<Rightarrow> Inl e
      | Inr r \<Rightarrow> do_remove g (TabObject r))"

text \<open>\<^verbatim>\<open>_on_tab_button_clicked\<close>: the close button of a tab removes the tab's item.\<close>

definition on_tab_button_clicked :: "DockGroup \<Rightarrow> nat \<Rightarrow> py_error + DockGroup" where
  "on_tab_button_clicked g it = do_remove g (DockItem it)"



section \<open>dockgroup.py: size request and size allocation\<close>

text \<open>
  What the toolkit answers when asked for the requisition \<open>(width, height)\<close> of a
  tab's image, label and close button (by tab reference), of the three decoration
  buttons, and of a DockItem (by item).
\<close>

record toolkit =
  image_req :: "nat \<Rightarrow> int \<times> int"
  label_req :: "nat \<Rightarrow> int \<times> int"
  button_req :: "nat \<Rightarrow> int \<times> int"
  list_button_req :: "int \<times> int"
  min_button_req :: "int \<times> int"
  max_button_req :: "int \<times> int"
  item_req :: "nat \<Rightarrow> int \<times> int"

definition set_area_width :: "int \<Rightarrow> DockGroupTab \<Rightarrow> DockGroupTab" where
  "set_area_width w t = t\<lparr>tab_area := (tab_area t)\<lparr>rect_width := w\<rparr>\<rparr>"

definition set_area_height :: "int \<Rightarrow> DockGroupTab \<Rightarrow> DockGroupTab" where
  "set_area_height h t = t\<lparr>tab_area := (tab_area t)\<lparr>rect_height := h\<rparr>\<rparr>"

definition set_area_xy :: "int \<Rightarrow> int \<Rightarrow> DockGroupTab \<Rightarrow> DockGroupTab" where
  "set_area_xy x y t = t\<lparr>tab_area := (tab_area t)\<lparr>rect_x := x, rect_y := y\<rparr>\<rparr>"

text \<open>
  The natural width of a tab, as \<^verbatim>\<open>do_size_request\<close> computes it: frame and
  spacing around the widths of image, label and close button. The close button's
  requisition is unpacked as \<^verbatim>\<open>(bw, bh)\<close> here, so \<^verbatim>\<open>bw\<close> is its width.
\<close>

definition natural_width :: "toolkit \<Rightarrow> nat \<Rightarrow> int" where
  "natural_width tk r =
     (let (iw, ih) = image_req tk r;
          (lw, lh) = label_req tk r;
          (bw, bh) = button_req tk r
      in frame_width + spacing + iw + spacing + lw + spacing + bw + spacing + frame_width)"

text \<open>
  The loop of \<^verbatim>\<open>do_size_request\<close> over \<^verbatim>\<open>enumerate(self._tabs)\<close>: every tab gets its
  natural width and height; \<open>dw\<close> is taken from the current tab, \<open>dh\<close> is the tallest tab.
\<close>

fun size_request_tabs ::
  "toolkit \<Rightarrow> nat option \<Rightarrow> (nat \<times> nat) list \<Rightarrow> (nat \<Rightarrow> DockGroupTab) \<times> int \<times> int
     \<Rightarrow> (nat \<Rightarrow> DockGroupTab) \<times> int \<times> int" where
  "size_request_tabs tk cur [] acc = acc"
| "size_request_tabs tk cur ((index, r) # rest) (st, dw, dh) =
     (let (iw, ih) = image_req tk r;
          (lw, lh) = label_req tk r;
          (bw, bh) = button_req tk r;
          w = natural_width tk r;
          h = frame_width + spacing + max ih (max lh bh) + spacing + frame_width;
          st' = st(r := set_area_height h (set_area_width w (st r)));
          dw' = (if Some index = cur then w - lw else dw);
          dh' = max dh h
      in size_request_tabs tk cur rest (st', dw', dh'))"

text \<open>\<^verbatim>\<open>do_size_request\<close>: the updated group and the requisition \<open>(width, height)\<close>.\<close>

definition do_size_request :: "toolkit \<Rightarrow> DockGroup \<Rightarrow> DockGroup \<times> int \<times> int" where
  "do_size_request tk g =
     (let (st, dw0, dh0) =
            size_request_tabs tk (current_index g) (enumerate 0 (tabs g)) (tab_store g, 0, 0);
          (list_w, list_h) = list_button_req tk;
          (min_w, min_h) = min_button_req tk;
          (max_w, max_h) = max_button_req tk;
          dw = dw0 + (spacing + list_w + min_w + max_w + spacing + frame_width);
          dh = max dh0 (max (spacing + list_h + spacing)
                 (max (spacing + min_h + spacing) (spacing + max_h + spacing)));
          (iw0, ih0) = (case current_item g of Some it \<Rightarrow> item_req tk it | None \<Rightarrow> (0, 0));
          iw = iw0 + 2 * frame_width + 2 * border_width;
          ih = ih0 + frame_width + 2 * border_width
      in (g\<lparr>tab_store := st,
            decoration_area := (decoration_area g)\<lparr>rect_width := dw, rect_height := dh\<rparr>\<rparr>,
          max dw iw, dh + ih))"

text \<open>
  The three admission walks of \<^verbatim>\<open>do_size_allocate\<close>. Each walks its list while
  the next tab still fits into the remaining width and stops at the first that does
  not; the first loop also stops once \<open>m\<close> (\<^verbatim>\<open>max_tabs_before_current\<close>) tabs are in.
  The first and third insert at the front of the visible list, the second appends.
\<close>

fun admit_left ::
  "(nat \<Rightarrow> DockGroupTab) \<Rightarrow> nat \<Rightarrow> nat list \<Rightarrow> nat \<times> int \<times> nat list \<Rightarrow> nat \<times> int \<times> nat list"
  where
  "admit_left st m [] acc = acc"
| "admit_left st m (t # ts) (count, aw, vis) =
     (if aw - rect_width (tab_area (st t)) \<ge> 0 then
        (if count < m
         then admit_left st m ts (Suc count, aw - rect_width (tab_area (st t)), t # vis)
         else (count, aw, vis))
      else (count, aw, vis))"

fun admit_right ::
  "(nat \<Rightarrow> DockGroupTab) \<Rightarrow> nat list \<Rightarrow> int \<times> nat list \<Rightarrow> int \<times> nat list" where
  "admit_right st [] acc = acc"
| "admit_right st (t # ts) (aw, vis) =
     (if aw - rect_width (tab_area (st t)) \<ge> 0
      then admit_right st ts (aw - rect_width (tab_area (st t)), vis @ [t])
      else (aw, vis))"

fun admit_extra ::
  "(nat \<Rightarrow> DockGroupTab) \<Rightarrow> nat list \<Rightarrow> int \<times> nat list \<Rightarrow> int \<times> nat list" where
  "admit_extra st [] acc = acc"
| "admit_extra st (t # ts) (aw, vis) =
     (if aw - rect_width (tab_area (st t)) \<ge> 0
      then admit_extra st ts (aw - rect_width (tab_area (st t)), t # vis)
      else (aw, vis))"

text \<open>
  The width left for the tab strip: the allocation's width less frame, spacing and
  the three decoration buttons.
\<close>

definition strip_width :: "toolkit \<Rightarrow> rectangle \<Rightarrow> int" where
  "strip_width tk alloc =
     rect_width alloc - frame_width - spacing - fst (max_button_req tk)
       - fst (min_button_req tk) - fst (list_button_req tk) - spacing"

text \<open>
  The width called \<^verbatim>\<open>normal\<close> in the lone-tab branch of \<^verbatim>\<open>do_size_allocate\<close>. The
  source unpacks the close button's requisition as \<^verbatim>\<open>(bh, bw)\<close> there, so the
  summand \<^verbatim>\<open>bw\<close> is the second component, the button's height; it is the natural
  width only for a close button as wide as it is high.
\<close>

definition normal_width :: "toolkit \<Rightarrow> nat \<Rightarrow> int" where
  "normal_width tk r =
     (let (iw, ih) = image_req tk r;
          (lw, lh) = label_req tk r;
          (bh, bw) = button_req tk r
      in frame_width + spacing + iw + spacing + lw + spacing + bw + spacing + frame_width)"

definition lone_tab :: "toolkit \<Rightarrow> rectangle \<Rightarrow> nat \<Rightarrow> (nat \<Rightarrow> DockGroupTab) \<Rightarrow> nat \<Rightarrow> DockGroupTab"
  where
  "lone_tab tk alloc r st =
     (let normal = normal_width tk r; width = strip_width tk alloc
      in if width \<le> normal then st(r := set_area_width width (st r)) else st)"

text \<open>
  The visibility loop over all tabs: the current tab shows item, image, label and
  button; another visible tab hides its item and shows the button only while
  prelighted; a tab that is not visible hides everything.
\<close>

definition show_hide :: "nat list \<Rightarrow> nat list \<Rightarrow> nat \<Rightarrow> nat \<Rightarrow> DockGroupTab \<Rightarrow> DockGroupTab" where
  "show_hide all vis cur r t =
     (if list_index all r = Some cur then
        t\<lparr>item_visible := True, image_visible := True, label_visible := True,
          button_visible := True\<rparr>
      else if r \<in> set vis then
        t\<lparr>item_visible := False, image_visible := True,
          button_visible := (tab_state t = STATE_PRELIGHT), label_visible := True\<rparr>
      else
        t\<lparr>item_visible := False, image_visible := False, button_visible := False,
          label_visible := False\<rparr>)"

definition update_visibility ::
  "nat list \<Rightarrow> nat list \<Rightarrow> nat \<Rightarrow> (nat \<Rightarrow> DockGroupTab) \<Rightarrow> nat \<Rightarrow> DockGroupTab" where
  "update_visibility all vis cur st =
     fold (\<lambda>r s. s(r := show_hide all vis cur r (s r))) all st"

text \<open>The last loop: every visible tab is placed at the running x position, y = 0.\<close>

fun place_tabs :: "nat list \<Rightarrow> int \<Rightarrow> (nat \<Rightarrow> DockGroupTab) \<Rightarrow> nat \<Rightarrow> DockGroupTab" where
  "place_tabs [] cx st = st"
| "place_tabs (t # ts) cx st =
     (let st' = st(t := set_area_xy cx 0 (st t))
      in place_tabs ts (cx + rect_width (tab_area (st' t))) st')"

text \<open>
  The admission of \<^verbatim>\<open>do_size_allocate\<close>, for a current index \<open>c\<close> inside the tab
  list: the visible list after the three walks. \<^verbatim>\<open>max_tabs_before_current\<close> is the
  position of the current tab in the old visible list, or the number of tabs when it
  is not there.
\<close>

definition admitted :: "toolkit \<Rightarrow> rectangle \<Rightarrow> DockGroup \<Rightarrow> nat \<Rightarrow> nat list" where
  "admitted tk alloc g c =
     (let cur = tabs g ! c;
          st = tab_store g;
          max_tabs_before_current =
            (case list_index (visible_tabs g) cur of
               Some i \<Rightarrow> i
             | None \<Rightarrow> length (tabs g));
          available_width = strip_width tk alloc - rect_width (tab_area (st cur));
          (count, aw1, vis1) =
            admit_left st max_tabs_before_current
              (rev (py_slice_to (tabs g) (int c))) (0, available_width, []);
          (aw2, vis3) = admit_right st (drop (c + 1) (tabs g)) (aw1, vis1 @ [cur]);
          (aw3, vis4) =
            admit_extra st (rev (py_slice_to (tabs g) (int c - int count))) (aw2, vis3)
      in vis4)"

text \<open>
  The block of \<^verbatim>\<open>do_size_allocate\<close> under \<^verbatim>\<open>if self._tabs\<close>: the visible list and the
  store it leaves. \<^verbatim>\<open>self._tabs[self._current_index]\<close> raises TypeError for a current
  index of \<^verbatim>\<open>None\<close> and IndexError for one beyond the list.
\<close>

definition admit_tabs ::
  "toolkit \<Rightarrow> rectangle \<Rightarrow> DockGroup \<Rightarrow> py_error + nat list \<times> (nat \<Rightarrow> DockGroupTab)" where
  "admit_tabs tk alloc g =
     (case current_index g of
        None \<Rightarrow> Inl TypeError
      | Some c \<Rightarrow>
          if c \<ge> length (tabs g) then Inl IndexError
          else
            (let cur = tabs g ! c;
                 vis = admitted tk alloc g c;
                 st1 = (if length vis = 1 then lone_tab tk alloc cur (tab_store g)
                        else tab_store g);
                 st2 = update_visibility (tabs g) vis c st1
             in Inr (vis, st2)))"

text \<open>
  \<^verbatim>\<open>do_size_allocate\<close>. The allocations handed to the decoration buttons, to the
  tabs' child widgets and to the current item are calls into the toolkit that leave
  the group's own fields alone; they are not part of the state.
\<close>

definition do_size_allocate :: "toolkit \<Rightarrow> rectangle \<Rightarrow> DockGroup \<Rightarrow> py_error + DockGroup" where
  "do_size_allocate tk alloc g =
     (case (if tabs g \<noteq> [] then admit_tabs tk alloc g
            else Inr (visible_tabs g, tab_store g)) of
        Inl e \<Rightarrow> Inl e
      | Inr (vis, st) \<Rightarrow>
          Inr (g\<lparr>allocation := alloc,
                 visible_tabs := vis,
                 list_button_visible := (length (tabs g) > length vis),
                 tab_store := place_tabs vis 0 st\<rparr>))"



section \<open>docklayout.py: drag data, the widget tree and the generic handlers\<close>

text \<open>
  The class of a widget, as far as the type dispatch of the generic functions tells
  widgets apart.
\<close>

datatype widget_type = DockGroupT | DockPanedT | DockFrameT | OtherT

datatype orientation = ORIENTATION_HORIZONTAL | ORIENTATION_VERTICAL

text \<open>
  A widget as the drag handlers see it: its identity, its class, its allocation, its
  orientation (read for a DockPaned only), the pointer position
  \<^verbatim>\<open>get_pointer()\<close> reports for it, and its parent. A widget object counts as true in
  \<^verbatim>\<open>if parent\<close>.
\<close>

datatype widget =
  Widget (wid: nat) (wtype: widget_type) (walloc: rectangle) (get_orientation: orientation)
    (get_pointer: "int \<times> int") (get_parent: "widget option")

text \<open>
  What the handlers act on besides their return value. \<open>stdout\<close> collects the fixed
  text of each \<^verbatim>\<open>print\<close> (the values printed after it are left out); every further
  field of the world is open, for the widgets' own handler bodies to use.
\<close>

record world =
  stdout :: "string list"

definition py_print :: "string \<Rightarrow> 'a world_scheme \<Rightarrow> 'a world_scheme" where
  "py_print line s = s\<lparr>stdout := stdout s @ [line]\<rparr>"

text \<open>
  \<^verbatim>\<open>DragData = namedtuple('DragData', 'drop_widget leave received')\<close>. The drop
  widget is held by identity. A callback acts on the world and may raise: it returns
  the exception, if any, with the world it leaves. \<open>leave\<close> is called with the drop
  widget, \<open>received\<close> with the selection data and the info number. A three-field tuple
  counts as true.
\<close>

record 'w DragData =
  drop_widget :: "nat option"
  leave :: "(nat option \<Rightarrow> 'w \<Rightarrow> py_error option \<times> 'w) option"
  received :: "(nat \<Rightarrow> nat \<Rightarrow> 'w \<Rightarrow> py_error option \<times> 'w) option"

definition MAGIC_BORDER_SIZE :: int where
  "MAGIC_BORDER_SIZE = 10"

text \<open>\<^verbatim>\<open>_propagate_to_parent\<close>.\<close>

definition propagate_to_parent ::
  "(widget \<Rightarrow> nat \<Rightarrow> int \<Rightarrow> int \<Rightarrow> nat \<Rightarrow> 'w \<Rightarrow> 'r option \<times> 'w)
     \<Rightarrow> widget \<Rightarrow> nat \<Rightarrow> int \<Rightarrow> int \<Rightarrow> nat \<Rightarrow> 'w \<Rightarrow> 'r option \<times> 'w" where
  "propagate_to_parent func widget context x y timestamp s =
     (case get_parent widget of
        Some parent \<Rightarrow>
          (let (px, py) = get_pointer parent in func parent context px py timestamp s)
      | None \<Rightarrow> (None, s))"

definition dock_paned_magic_borders_leave ::
  "nat option \<Rightarrow> 'w \<Rightarrow> py_error option \<times> 'w" where
  "dock_paned_magic_borders_leave self s = (None, s)"

text \<open>The local function \<^verbatim>\<open>handle(create)\<close> of \<^verbatim>\<open>dock_paned_magic_borders\<close>.\<close>

definition handle :: "int \<Rightarrow> int \<Rightarrow> bool \<Rightarrow> 'a world_scheme \<Rightarrow> 'a world_scheme" where
  "handle x y create s =
     (if create then py_print ''Add new DockPaned and add DockGroup'' s
      else if min x y < MAGIC_BORDER_SIZE then py_print ''Prepend group'' s
      else py_print ''Append group'' s)"

definition dock_paned_magic_borders ::
  "widget \<Rightarrow> nat \<Rightarrow> int \<Rightarrow> int \<Rightarrow> nat \<Rightarrow> 'a world_scheme
     \<Rightarrow> ('a world_scheme) DragData option \<times> 'a world_scheme" where
  "dock_paned_magic_borders self context x y timestamp s =
     (let a = walloc self;
          s1 = py_print ''MAGIC happens here'' s
      in if \<bar>min y (rect_height a - y)\<bar> < MAGIC_BORDER_SIZE then
           (let s2 = py_print ''HORIZONTAL'' s1;
                s3 = handle x y (get_orientation self = ORIENTATION_HORIZONTAL) s2
            in (Some \<lparr>drop_widget = Some (wid self),
                      leave = Some dock_paned_magic_borders_leave,
                      received = None\<rparr>, s3))
         else if \<bar>min x (rect_width a - x)\<bar> < MAGIC_BORDER_SIZE then
           (let s2 = py_print ''VERTICAL'' s1;
                s3 = handle x y (get_orientation self = ORIENTATION_VERTICAL) s2
            in (Some \<lparr>drop_widget = Some (wid self),
                      leave = Some dock_paned_magic_borders_leave,
                      received = None\<rparr>, s3))
         else (None, s1))"

definition dock_frame_magic_borders ::
  "widget \<Rightarrow> nat \<Rightarrow> int \<Rightarrow> int \<Rightarrow> nat \<Rightarrow> 'a world_scheme
     \<Rightarrow> ('a world_scheme) DragData option \<times> 'a world_scheme" where
  "dock_frame_magic_borders self context x y timestamp s =
     (None, py_print ''LAYOUT MAGIC happens here'' s)"

text \<open>
  The generic function \<^verbatim>\<open>magic_borders\<close>: the DockPaned and DockFrame
  implementations registered with \<^verbatim>\<open>when_type\<close>, and the default body \<^verbatim>\<open>pass\<close> for
  every other class.
\<close>

definition magic_borders ::
  "widget \<Rightarrow> nat \<Rightarrow> int \<Rightarrow> int \<Rightarrow> nat \<Rightarrow> 'a world_scheme
     \<Rightarrow> ('a world_scheme) DragData option \<times> 'a world_scheme" where
  "magic_borders widget context x y timestamp s =
     (case wtype widget of
        DockPanedT \<Rightarrow> dock_paned_magic_borders widget context x y timestamp s
      | DockFrameT \<Rightarrow> dock_frame_magic_borders widget context x y timestamp s
      | _ \<Rightarrow> (None, s))"

text \<open>
  The decorator \<^verbatim>\<open>with_magic_borders\<close>: \<^verbatim>\<open>handled or func(...)\<close> evaluates
  \<^verbatim>\<open>func\<close> only when \<^verbatim>\<open>handled\<close> is \<^verbatim>\<open>None\<close>.
\<close>

definition with_magic_borders ::
  "(widget \<Rightarrow> nat \<Rightarrow> int \<Rightarrow> int \<Rightarrow> nat \<Rightarrow> 'a world_scheme
      \<Rightarrow> ('a world_scheme) DragData option \<times> 'a world_scheme)
     \<Rightarrow> widget \<Rightarrow> nat \<Rightarrow> int \<Rightarrow> int \<Rightarrow> nat \<Rightarrow> 'a world_scheme
     \<Rightarrow> ('a world_scheme) DragData option \<times> 'a world_scheme" where
  "with_magic_borders func widget context x y timestamp s =
     (let (handled, s1) = propagate_to_parent magic_borders widget context x y timestamp s
      in case handled of
           Some d \<Rightarrow> (Some d, s1)
         | None \<Rightarrow> func widget context x y timestamp s1)"

text \<open>
  The generic function \<^verbatim>\<open>drag_motion\<close>. \<open>group_body\<close> and \<open>paned_body\<close> are the
  bodies of \<^verbatim>\<open>dock_group_drag_motion\<close> and \<^verbatim>\<open>dock_paned_drag_motion\<close>, which call
  methods of DockGroup and DockPaned that are not part of the sources at hand; both
  are registered wrapped in \<^verbatim>\<open>with_magic_borders\<close>. The default prints and passes
  the call to the parent, at the parent's pointer position.
\<close>

fun drag_motion ::
  "(widget \<Rightarrow> nat \<Rightarrow> int \<Rightarrow> int \<Rightarrow> nat \<Rightarrow> 'a world_scheme
      \<Rightarrow> ('a world_scheme) DragData option \<times> 'a world_scheme)
     \<Rightarrow> (widget \<Rightarrow> nat \<Rightarrow> int \<Rightarrow> int \<Rightarrow> nat \<Rightarrow> 'a world_scheme
      \<Rightarrow> ('a world_scheme) DragData option \<times> 'a world_scheme)
     \<Rightarrow> widget \<Rightarrow> nat \<Rightarrow> int \<Rightarrow> int \<Rightarrow> nat \<Rightarrow> 'a world_scheme
     \<Rightarrow> ('a world_scheme) DragData option \<times> 'a world_scheme" where
  "drag_motion group_body paned_body (Widget i ty a orient ptr par) context x y timestamp s =
     (case ty of
        DockGroupT \<Rightarrow>
          with_magic_borders group_body (Widget i ty a orient ptr par) context x y timestamp s
      | DockPanedT \<Rightarrow>
          with_magic_borders paned_body (Widget i ty a orient ptr par) context x y timestamp s
      | _ \<Rightarrow>
          (let s1 = py_print ''drag_motion'' s
           in case par of
                Some parent \<Rightarrow>
                  drag_motion group_body paned_body parent context
                    (fst (get_pointer parent)) (snd (get_pointer parent)) timestamp s1
              | None \<Rightarrow> (None, s1)))"


section \<open>docklayout.py: the DockLayout\<close>

text \<open>
  The DockLayout: the frames, the map from a widget to the set of handler ids
  connected for it, and the slot of the current drag data. The callbacks held in the
  slot act on the world \<open>'w\<close>, which is everything but the slot itself.
\<close>

record 'w DockLayout =
  frames :: "nat set"
  signal_handlers :: "nat \<rightharpoonup> nat set"
  drag_data :: "'w DragData option"

definition DockLayout_init :: "'w DockLayout" where
  "DockLayout_init = \<lparr>frames = {}, signal_handlers = Map.empty, drag_data = None\<rparr>"

text \<open>
  \<^verbatim>\<open>on_widget_drag_leave\<close>: the leave callback of the stored drag data, when there
  is one, is called with the stored drop widget.
\<close>

definition on_widget_drag_leave :: "'w DockLayout \<Rightarrow> 'w \<Rightarrow> py_error option \<times> 'w" where
  "on_widget_drag_leave self s =
     (case drag_data self of
        Some dd \<Rightarrow>
          (case leave dd of
             Some f \<Rightarrow> f (drop_widget dd) s
           | None \<Rightarrow> (None, s))
      | None \<Rightarrow> (None, s))"

text \<open>
  \<^verbatim>\<open>x and x.drop_widget\<close>: \<^verbatim>\<open>None\<close> for no drag data, else the drop widget.
\<close>

definition drop_widget_of :: "'w DragData option \<Rightarrow> nat option" where
  "drop_widget_of dd = (case dd of None \<Rightarrow> None | Some d \<Rightarrow> drop_widget d)"

text \<open>
  \<^verbatim>\<open>on_widget_drag_motion\<close>: the exception raised, if any, the layout and the world
  afterwards. An exception out of the leave callback leaves the slot as it was.
\<close>

definition on_widget_drag_motion ::
  "(widget \<Rightarrow> nat \<Rightarrow> int \<Rightarrow> int \<Rightarrow> nat \<Rightarrow> 'a world_scheme
      \<Rightarrow> ('a world_scheme) DragData option \<times> 'a world_scheme)
     \<Rightarrow> (widget \<Rightarrow> nat \<Rightarrow> int \<Rightarrow> int \<Rightarrow> nat \<Rightarrow> 'a world_scheme
      \<Rightarrow> ('a world_scheme) DragData option \<times> 'a world_scheme)
     \<Rightarrow> ('a world_scheme) DockLayout \<Rightarrow> widget \<Rightarrow> nat \<Rightarrow> int \<Rightarrow> int \<Rightarrow> nat \<Rightarrow> 'a world_scheme
     \<Rightarrow> py_error option \<times> ('a world_scheme) DockLayout \<times> 'a world_scheme" where
  "on_widget_drag_motion group_body paned_body self widget context x y timestamp s =
     (let (new_data, s1) = drag_motion group_body paned_body widget context x y timestamp s;
          old_drop_widget = drop_widget_of (drag_data self);
          new_drop_widget = drop_widget_of new_data
      in if new_drop_widget \<noteq> old_drop_widget then
           (case on_widget_drag_leave self s1 of
              (Some e, s2) \<Rightarrow> (Some e, self, s2)
            | (None, s2) \<Rightarrow> (None, self\<lparr>drag_data := new_data\<rparr>, s2))
         else (None, self, s1))"

text \<open>
  \<^verbatim>\<open>on_widget_drag_data_received\<close>. With no drag data, \<^verbatim>\<open>drag_data.received\<close> is an
  attribute read on \<^verbatim>\<open>None\<close>; with drag data but no received callback the
  \<^verbatim>\<open>assert\<close> fails. Otherwise the callback runs inside \<^verbatim>\<open>try\<close>, and \<^verbatim>\<open>finally\<close>
  empties the slot.
\<close>

definition on_widget_drag_data_received ::
  "'w DockLayout \<Rightarrow> nat \<Rightarrow> nat \<Rightarrow> 'w \<Rightarrow> py_error option \<times> 'w DockLayout \<times> 'w" where
  "on_widget_drag_data_received self selection_data info s =
     (case drag_data self of
        None \<Rightarrow> (Some AttributeError, self, s)
      | Some dd \<Rightarrow>
          (case received dd of
             None \<Rightarrow> (Some AssertionError, self, s)
           | Some f \<Rightarrow>
               (let (e, s1) = f selection_data info s
                in (e, self\<lparr>drag_data := None\<rparr>, s1))))"

text \<open>
  The toolkit's side of signal handling: the connections made (widget, signal name,
  handler id), the id the next \<^verbatim>\<open>connect\<close> returns, and the widgets made drag
  destinations.
\<close>

record gtk_signals =
  connected :: "(nat \<times> string \<times> nat) list"
  next_handler_id :: nat
  drag_dest :: "nat set"

text \<open>
  A widget with the children \<^verbatim>\<open>foreach\<close> walks: its identity, whether it is a
  \<^verbatim>\<open>gtk.Container\<close>, and its children.
\<close>

datatype wtree = WTree (tree_wid: nat) (is_container: bool) (tree_children: "wtree list")

definition signal_names :: "string list" where
  "signal_names =
     [''add'', ''remove'', ''drag_motion'', ''drag-leave'', ''drag-drop'',
      ''drag-data-received'', ''drag-end'', ''drag-failed'']"

text \<open>\<^verbatim>\<open>signals.add(widget.connect(name, callback))\<close> for each name in turn.\<close>

fun connect_all :: "nat \<Rightarrow> string list \<Rightarrow> nat set \<times> gtk_signals \<Rightarrow> nat set \<times> gtk_signals" where
  "connect_all w [] acc = acc"
| "connect_all w (name # names) (signals, G) =
     connect_all w names
       (insert (next_handler_id G) signals,
        G\<lparr>connected := connected G @ [(w, name, next_handler_id G)],
          next_handler_id := Suc (next_handler_id G)\<rparr>)"

text \<open>\<^verbatim>\<open>for s in signals: widget.disconnect(s)\<close>.\<close>

definition disconnect_all :: "nat \<Rightarrow> nat set \<Rightarrow> gtk_signals \<Rightarrow> gtk_signals" where
  "disconnect_all w signals G =
     G\<lparr>connected := filter (\<lambda>(w', name, h). \<not> (w' = w \<and> h \<in> signals)) (connected G)\<rparr>"

text \<open>
  \<^verbatim>\<open>add_signal_handlers\<close>. \<^verbatim>\<open>self._signal_handlers.get(widget)\<close> counts as true for
  a set that is not empty.
\<close>

fun add_signal_handlers ::
  "wtree \<Rightarrow> 'w DockLayout \<times> gtk_signals \<Rightarrow> 'w DockLayout \<times> gtk_signals" where
  "add_signal_handlers (WTree w cont kids) (self, G) =
     (if (case signal_handlers self w of None \<Rightarrow> False | Some sigs \<Rightarrow> sigs \<noteq> {}) then (self, G)
      else
        (let G0 = G\<lparr>drag_dest := insert w (drag_dest G)\<rparr>;
             (signals, G1) = connect_all w signal_names ({}, G0);
             self1 = self\<lparr>signal_handlers := (signal_handlers self)(w \<mapsto> signals)\<rparr>
         in if cont then fold add_signal_handlers kids (self1, G1) else (self1, G1)))"

text \<open>\<^verbatim>\<open>remove_signal_handlers\<close>: a missing entry is the KeyError that is passed over.\<close>

fun remove_signal_handlers ::
  "wtree \<Rightarrow> 'w DockLayout \<times> gtk_signals \<Rightarrow> 'w DockLayout \<times> gtk_signals" where
  "remove_signal_handlers (WTree w cont kids) (self, G) =
     (case signal_handlers self w of
        None \<Rightarrow> (self, G)
      | Some signals \<Rightarrow>
          (let G1 = disconnect_all w signals G;
               self1 = self\<lparr>signal_handlers := (signal_handlers self)(w := None)\<rparr>
           in if cont then fold remove_signal_handlers kids (self1, G1) else (self1, G1)))"

definition on_widget_add ::
  "wtree \<Rightarrow> 'w DockLayout \<times> gtk_signals \<Rightarrow> 'w DockLayout \<times> gtk_signals" where
  "on_widget_add widget st = (if is_container widget then add_signal_handlers widget st else st)"

definition on_widget_remove ::
  "wtree \<Rightarrow> 'w DockLayout \<times> gtk_signals \<Rightarrow> 'w DockLayout \<times> gtk_signals" where
  "on_widget_remove widget st =
     (if is_container widget then remove_signal_handlers widget st else st)"


section \<open>Reachable groups and concrete groups\<close>

text \<open>
  The groups that the operations produce from a new DockGroup: appending an item,
  removing by index, selecting, the close button of a tab, and the size request and
  size allocation of a layout pass. An operation that raises leaves the group as it
  was, since each raise of the operations above comes before the first assignment.
\<close>

inductive reachable :: "DockGroup \<Rightarrow> bool" where
  init: "reachable (DockGroup_init st)"
| append: "reachable g \<Longrightarrow> append_item g w = Inr g' \<Longrightarrow> reachable g'"
| remove: "reachable g \<Longrightarrow> remove_item g n = Inr g' \<Longrightarrow> reachable g'"
| select: "reachable g \<Longrightarrow> reachable (set_current_item g n)"
| close: "reachable g \<Longrightarrow> on_tab_button_clicked g it = Inr g' \<Longrightarrow> reachable g'"
| request: "reachable g \<Longrightarrow> reachable (fst (do_size_request tk g))"
| allocate: "reachable g \<Longrightarrow> do_size_allocate tk alloc g = Inr g' \<Longrightarrow> reachable g'"

text \<open>The selection is consistent: no tabs and nothing selected, or a valid index.\<close>

definition selection_ok :: "DockGroup \<Rightarrow> bool" where
  "selection_ok g =
     (case current_index g of
        None \<Rightarrow> tabs g = [] \<and> current_item g = None
      | Some c \<Rightarrow> c < length (tabs g) \<and>
                 current_item g = Some (tab_item (tab_store g (tabs g ! c))))"

text \<open>
  Concrete groups: an empty group, a group of three items 10, 11, 12 with the middle one
  selected, and a group of one item after its size request, laid out in a wide and in
  a narrow allocation.
\<close>

definition no_tab :: DockGroupTab where
  "no_tab = \<lparr>tab_item = 0, tab_state = STATE_NORMAL, tab_area = Rectangle,
             item_visible = False, image_visible = False, label_visible = False,
             button_visible = False\<rparr>"

definition empty_group :: DockGroup where
  "empty_group = DockGroup_init (\<lambda>_. no_tab)"

fun append_items :: "DockGroup \<Rightarrow> nat list \<Rightarrow> DockGroup" where
  "append_items g [] = g"
| "append_items g (it # its) =
     (case append_item g (DockItem it) of Inr g' \<Rightarrow> append_items g' its | Inl _ \<Rightarrow> g)"

definition three_tabs :: DockGroup where
  "three_tabs = set_current_item (append_items empty_group [10, 11, 12]) 1"

definition example_toolkit :: toolkit where
  "example_toolkit =
     \<lparr>image_req = (\<lambda>_. (16, 16)), label_req = (\<lambda>_. (40, 16)), button_req = (\<lambda>_. (8, 12)),
      list_button_req = (10, 10), min_button_req = (10, 10), max_button_req = (10, 10),
      item_req = (\<lambda>_. (100, 100))\<rparr>"

definition one_tab :: DockGroup where
  "one_tab = fst (do_size_request example_toolkit (append_items empty_group [10]))"

definition wide_alloc :: rectangle where
  "wide_alloc = \<lparr>rect_x = 0, rect_y = 0, rect_width = 300, rect_height = 200\<rparr>"

definition narrow_alloc :: rectangle where
  "narrow_alloc = \<lparr>rect_x = 0, rect_y = 0, rect_width = 60, rect_height = 200\<rparr>"

definition wide_layout :: "py_error + DockGroup" where
  "wide_layout = do_size_allocate example_toolkit wide_alloc one_tab"

definition narrow_layout :: "py_error + DockGroup" where
  "narrow_layout = do_size_allocate example_toolkit narrow_alloc one_tab"


section \<open>Concrete widgets, layouts and callbacks\<close>

text \<open>
  A frame holding a paned holding a group, once with the paned's pointer three pixels
  from its top edge and once with the pointer in its middle; two groups without a
  parent; callbacks that print, and one that raises; layouts whose slot is filled.
\<close>

definition alloc_400_300 :: rectangle where
  "alloc_400_300 = \<lparr>rect_x = 0, rect_y = 0, rect_width = 400, rect_height = 300\<rparr>"

definition frame_widget :: widget where
  "frame_widget = Widget 1 DockFrameT alloc_400_300 ORIENTATION_HORIZONTAL (200, 150) None"

definition paned_at_border :: widget where
  "paned_at_border =
     Widget 2 DockPanedT alloc_400_300 ORIENTATION_HORIZONTAL (200, 3) (Some frame_widget)"

definition paned_inside :: widget where
  "paned_inside =
     Widget 2 DockPanedT alloc_400_300 ORIENTATION_HORIZONTAL (200, 150) (Some frame_widget)"

definition group_at_border :: widget where
  "group_at_border =
     Widget 3 DockGroupT alloc_400_300 ORIENTATION_HORIZONTAL (100, 100) (Some paned_at_border)"

definition group_inside :: widget where
  "group_inside =
     Widget 3 DockGroupT alloc_400_300 ORIENTATION_HORIZONTAL (100, 100) (Some paned_inside)"

definition group_a :: widget where
  "group_a = Widget 5 DockGroupT alloc_400_300 ORIENTATION_HORIZONTAL (100, 100) None"

definition group_b :: widget where
  "group_b = Widget 6 DockGroupT alloc_400_300 ORIENTATION_HORIZONTAL (100, 100) None"

definition example_leave :: "nat option \<Rightarrow> world \<Rightarrow> py_error option \<times> world" where
  "example_leave w s = (None, py_print ''leave'' s)"

definition example_received :: "nat \<Rightarrow> nat \<Rightarrow> world \<Rightarrow> py_error option \<times> world" where
  "example_received sel info s = (None, py_print ''received'' s)"

definition failing_received :: "nat \<Rightarrow> nat \<Rightarrow> world \<Rightarrow> py_error option \<times> world" where
  "failing_received sel info s = (Some (Raised ''received failed''), py_print ''received'' s)"

definition example_body ::
  "widget \<Rightarrow> nat \<Rightarrow> int \<Rightarrow> int \<Rightarrow> nat \<Rightarrow> world \<Rightarrow> world DragData option \<times> world" where
  "example_body self context x y timestamp s =
     (Some \<lparr>drop_widget = Some (wid self), leave = Some example_leave,
            received = Some example_received\<rparr>, py_print ''body'' s)"

definition quiet :: world where
  "quiet = \<lparr>stdout = []\<rparr>"

definition layout_on_a :: "world DockLayout" where
  "layout_on_a =
     DockLayout_init\<lparr>drag_data :=
       Some \<lparr>drop_widget = Some 5, leave = Some example_leave, received = Some example_received\<rparr>\<rparr>"

definition layout_failing :: "world DockLayout" where
  "layout_failing =
     DockLayout_init\<lparr>drag_data :=
       Some \<lparr>drop_widget = Some 5, leave = Some example_leave, received = Some failing_received\<rparr>\<rparr>"

definition layout_no_received :: "world DockLayout" where
  "layout_no_received =
     DockLayout_init\<lparr>drag_data :=
       Some \<lparr>drop_widget = Some 2, leave = Some dock_paned_magic_borders_leave, received = None\<rparr>\<rparr>"

text \<open>Every entry of the map is a non-empty set.\<close>

definition handlers_ok :: "'w DockLayout \<Rightarrow> bool" where
  "handlers_ok self = ({} \<notin> ran (signal_handlers self))"

text \<open>
  A frame with a paned, which holds a group, and a label; the toolkit before any
  connection is made; and the state after the handlers were added for the frame.
\<close>

definition frame_tree :: wtree where
  "frame_tree = WTree 1 True [WTree 2 True [WTree 3 True []], WTree 4 False []]"

definition no_signals :: gtk_signals where
  "no_signals = \<lparr>connected = [], next_handler_id = 1, drag_dest = {}\<rparr>"

definition installed :: "world DockLayout \<times> gtk_signals" where
  "installed = add_signal_handlers frame_tree (DockLayout_init, no_signals)"


section \<open>Selection: clamping and removal\<close>

lemma three_tabs_fields:
  "tabs three_tabs = [0, 1, 2]" "current_index three_tabs = Some 1"
  "current_item three_tabs = Some 11"
  by (simp_all add: three_tabs_def empty_group_def DockGroup_init_def append_item_def do_add_def
      item_num_def set_current_item_def Let_def)

lemma empty_group_fields:
  "tabs empty_group = []" "current_index empty_group = None" "current_item empty_group = None"
  by (simp_all add: empty_group_def DockGroup_init_def)

text \<open>
  C5. On a group with tabs, \<open>set_current_item\<close> selects index 0 for a negative
  number, the last index for a number from the count upwards, and the number itself
  in between; on a group without tabs it leaves current index and current item
  \<open>None\<close>, whatever the number.
\<close>

theorem set_current_item_clamps:
  "(tabs g \<noteq> [] \<longrightarrow>
      (n < 0 \<longrightarrow> current_index (set_current_item g n) = Some 0) \<and>
      (n \<ge> int (length (tabs g)) \<longrightarrow>
         current_index (set_current_item g n) = Some (length (tabs g) - 1)) \<and>
      (0 \<le> n \<and> n < int (length (tabs g)) \<longrightarrow>
         current_index (set_current_item g n) = Some (nat n))) \<and>
   (tabs g = [] \<longrightarrow>
      current_index (set_current_item g n) = None \<and>
      current_item (set_current_item g n) = None \<and>
      tabs (set_current_item g n) = [])"
  by (auto simp: set_current_item_def Let_def)

theorem set_current_item_clamps_witness:
  "tabs three_tabs \<noteq> [] \<and>
   current_index (set_current_item three_tabs (- 1)) = Some 0 \<and>
   current_index (set_current_item three_tabs 3) = Some 2 \<and>
   current_index (set_current_item three_tabs 7) = Some 2 \<and>
   current_index (set_current_item three_tabs 2) = Some 2 \<and>
   current_index (set_current_item three_tabs 0) = Some 0 \<and>
   tabs empty_group = [] \<and>
   current_index (set_current_item empty_group (- 1)) = None \<and>
   current_item (set_current_item empty_group 5) = None"
  using set_current_item_clamps [of three_tabs "- 1"] set_current_item_clamps [of three_tabs 3]
    set_current_item_clamps [of three_tabs 7] set_current_item_clamps [of three_tabs 2]
    set_current_item_clamps [of three_tabs 0]
    set_current_item_clamps [of empty_group "- 1"] set_current_item_clamps [of empty_group 5]
  by (simp add: three_tabs_fields empty_group_fields)

text \<open>
  C9. \<open>do_remove\<close> with an argument that is not a DockItem (a tab object or any other
  widget) returns without raising, and the group it returns is the group it was
  given: tabs, visible tabs, current index and current item are as before.
\<close>

theorem do_remove_ignores_other_widgets:
  "do_remove g (TabObject r) = Inr g \<and> do_remove g (OtherWidget w) = Inr g"
  by (simp add: do_remove_def)

text \<open>
  C1, at a group of three tabs with the middle one current: \<open>remove_item\<close> with
  index 1 returns the group unchanged, with all three tabs and the same selection.
  It hands the tab object at the index to \<open>remove\<close>, and \<open>do_remove\<close> acts on
  DockItems only.
\<close>

theorem remove_item_keeps_every_tab:
  "remove_item three_tabs 1 = Inr three_tabs \<and> get_n_items three_tabs = 3 \<and>
   current_index three_tabs = Some 1"
  by (simp add: remove_item_def py_getitem_def do_remove_def get_n_items_def three_tabs_fields)

text \<open>The same for every group and index: IndexError, or the group as it was.\<close>

lemma remove_item_never_removes:
  "remove_item g n = Inl IndexError \<or> remove_item g n = Inr g"
  by (simp add: remove_item_def py_getitem_def do_remove_def Let_def)

text \<open>
  What \<open>do_remove\<close> does when it is given the item, as the close button of a tab
  does: with the first tab current, closing the second tab makes index 1 current,
  which is then the former third tab.
\<close>

lemma close_button_reselects:
  "map_sum id (\<lambda>g. (tabs g, current_index g, current_item g, destroyed g))
     (on_tab_button_clicked (set_current_item three_tabs 0) 11) =
   Inr ([0, 2], Some 1, Some 12, [1])"
  by (simp add: on_tab_button_clicked_def do_remove_def item_num_def three_tabs_def
      empty_group_def DockGroup_init_def append_item_def do_add_def set_current_item_def Let_def)


section \<open>Layout: what a size request and a size allocation leave alone\<close>

lemma set_area_simps [simp]:
  "tab_item (set_area_width w t) = tab_item t"
  "tab_item (set_area_height h t) = tab_item t"
  "tab_item (set_area_xy x y t) = tab_item t"
  "rect_width (tab_area (set_area_width w t)) = w"
  "rect_width (tab_area (set_area_height h t)) = rect_width (tab_area t)"
  "rect_width (tab_area (set_area_xy x y t)) = rect_width (tab_area t)"
  by (simp_all add: set_area_width_def set_area_height_def set_area_xy_def)

lemma show_hide_simps [simp]:
  "tab_item (show_hide all vis cur r t) = tab_item t"
  "tab_area (show_hide all vis cur r t) = tab_area t"
  by (simp_all add: show_hide_def)

lemma size_request_tabs_item:
  "tab_item (fst (size_request_tabs tk cur xs (st, dw, dh)) r) = tab_item (st r)"
  by (induction xs arbitrary: st dw dh) (auto simp: Let_def split: prod.splits)

lemma update_visibility_item: "tab_item (update_visibility all vis cur st r) = tab_item (st r)"
proof -
  have "tab_item (fold (\<lambda>r s. s(r := show_hide all vis cur r (s r))) xs st r) = tab_item (st r)"
    for xs
    by (induction xs arbitrary: st) auto
  then show ?thesis by (simp add: update_visibility_def)
qed

lemma update_visibility_area: "tab_area (update_visibility all vis cur st r) = tab_area (st r)"
proof -
  have "tab_area (fold (\<lambda>r s. s(r := show_hide all vis cur r (s r))) xs st r) = tab_area (st r)"
    for xs
    by (induction xs arbitrary: st) auto
  then show ?thesis by (simp add: update_visibility_def)
qed

lemma place_tabs_item: "tab_item (place_tabs vis cx st r) = tab_item (st r)"
  by (induction vis arbitrary: cx st) (auto simp: Let_def)

lemma place_tabs_width:
  "rect_width (tab_area (place_tabs vis cx st r)) = rect_width (tab_area (st r))"
  by (induction vis arbitrary: cx st) (auto simp: Let_def)

lemma lone_tab_item: "tab_item (lone_tab tk alloc cur st r) = tab_item (st r)"
  by (simp add: lone_tab_def Let_def)

lemma admit_tabs_item:
  "admit_tabs tk alloc g = Inr (vis, st) \<Longrightarrow> tab_item (st r) = tab_item (tab_store g r)"
  by (auto simp: admit_tabs_def Let_def update_visibility_item lone_tab_item
      split: option.splits if_splits)

lemma do_size_allocate_fields:
  assumes "do_size_allocate tk alloc g = Inr g'"
  shows "tabs g' = tabs g" "current_index g' = current_index g" "current_item g' = current_item g"
    "tab_item (tab_store g' r) = tab_item (tab_store g r)"
  using assms
  by (auto simp: do_size_allocate_def place_tabs_item admit_tabs_item
      split: sum.splits if_splits)

lemma do_size_request_fields:
  "tabs (fst (do_size_request tk g)) = tabs g"
  "current_index (fst (do_size_request tk g)) = current_index g"
  "current_item (fst (do_size_request tk g)) = current_item g"
  "tab_item (tab_store (fst (do_size_request tk g)) r) = tab_item (tab_store g r)"
proof -
  obtain st dw dh where
    "size_request_tabs tk (current_index g) (enumerate 0 (tabs g)) (tab_store g, 0, 0) = (st, dw, dh)"
    by (metis prod_cases3)
  moreover from this have "tab_item (st r) = tab_item (tab_store g r)"
    using size_request_tabs_item [of tk "current_index g" "enumerate 0 (tabs g)" "tab_store g" 0 0 r]
    by simp
  ultimately show
    "tabs (fst (do_size_request tk g)) = tabs g"
    "current_index (fst (do_size_request tk g)) = current_index g"
    "current_item (fst (do_size_request tk g)) = current_item g"
    "tab_item (tab_store (fst (do_size_request tk g)) r) = tab_item (tab_store g r)"
    by (simp_all add: do_size_request_def Let_def split: prod.splits)
qed

lemma set_current_item_ok: "selection_ok (set_current_item g n)"
  by (auto simp: selection_ok_def set_current_item_def Let_def)

lemma do_add_ok: "do_add g w = Inr g' \<Longrightarrow> selection_ok g'"
  by (auto simp: do_add_def Let_def set_current_item_ok split: pyobj.splits option.splits)

lemma do_remove_ok: "selection_ok g \<Longrightarrow> do_remove g w = Inr g' \<Longrightarrow> selection_ok g'"
  by (auto simp: do_remove_def Let_def set_current_item_ok
      split: pyobj.splits option.splits if_splits)

lemma do_size_request_ok: "selection_ok g \<Longrightarrow> selection_ok (fst (do_size_request tk g))"
  by (simp add: selection_ok_def do_size_request_fields split: option.splits)

lemma do_size_allocate_ok:
  "selection_ok g \<Longrightarrow> do_size_allocate tk alloc g = Inr g' \<Longrightarrow> selection_ok g'"
  by (simp add: selection_ok_def do_size_allocate_fields split: option.splits)

lemma do_size_allocate_returns:
  assumes "current_index g = Some c" "c < length (tabs g)"
  shows "do_size_allocate tk alloc g =
           Inr (g\<lparr>allocation := alloc,
                  visible_tabs := admitted tk alloc g c,
                  list_button_visible := (length (tabs g) > length (admitted tk alloc g c)),
                  tab_store := place_tabs (admitted tk alloc g c) 0
                    (update_visibility (tabs g) (admitted tk alloc g c) c
                       (if length (admitted tk alloc g c) = 1
                        then lone_tab tk alloc (tabs g ! c) (tab_store g) else tab_store g))\<rparr>)"
  using assms by (auto simp: do_size_allocate_def admit_tabs_def Let_def)

lemma reachable_selection_ok: "reachable g \<Longrightarrow> selection_ok g"
proof (induction rule: reachable.induct)
  case (init st)
  show ?case by (simp add: selection_ok_def DockGroup_init_def)
next
  case (append g w g')
  then show ?case by (simp add: append_item_def do_add_ok)
next
  case (remove g n g')
  then show ?case
    by (auto simp: remove_item_def intro: do_remove_ok split: sum.splits)
next
  case (select g n)
  show ?case by (rule set_current_item_ok)
next
  case (close g it g')
  then show ?case by (auto simp: on_tab_button_clicked_def intro: do_remove_ok)
next
  case (request g tk)
  then show ?case by (simp add: do_size_request_ok)
next
  case (allocate g tk alloc g')
  then show ?case by (auto intro: do_size_allocate_ok)
qed

lemma reachable_append_items: "reachable g \<Longrightarrow> reachable (append_items g its)"
proof (induction its arbitrary: g)
  case Nil
  then show ?case by simp
next
  case (Cons it its)
  show ?case
  proof (cases "append_item g (DockItem it)")
    case (Inl e)
    with Cons.prems show ?thesis by simp
  next
    case (Inr g')
    with Cons.prems have "reachable g'" by (rule reachable.append)
    with Inr Cons.IH show ?thesis by simp
  qed
qed

lemma reachable_three_tabs: "reachable three_tabs"
  unfolding three_tabs_def empty_group_def
  by (intro reachable.select reachable_append_items reachable.init)

text \<open>
  C2. In every group reachable through \<open>append_item\<close>, \<open>remove_item\<close> and
  \<open>set_current_item\<close> (and through the close button and the layout pass as well),
  the current index is \<open>None\<close> exactly when there are no tabs; otherwise it is below
  the number of tabs, and the current item is the item of the tab at that index.
\<close>

theorem current_index_invariant:
  "reachable g \<Longrightarrow>
   (current_index g = None \<longleftrightarrow> tabs g = []) \<and>
   (\<forall>c. current_index g = Some c \<longrightarrow>
      c < length (tabs g) \<and> current_item g = Some (tab_item (tab_store g (tabs g ! c))))"
  using reachable_selection_ok [of g]
  by (auto simp: selection_ok_def split: option.splits)

theorem current_index_invariant_witness:
  "reachable three_tabs \<and> current_index three_tabs = Some 1 \<and> tabs three_tabs \<noteq> [] \<and>
   1 < length (tabs three_tabs) \<and>
   current_item three_tabs = Some (tab_item (tab_store three_tabs (tabs three_tabs ! 1)))"
  using current_index_invariant [OF reachable_three_tabs] reachable_three_tabs
  by (simp add: three_tabs_fields)


section \<open>Layout: the admitted tabs are a window around the current tab\<close>

lemma admit_left_split:
  "admit_left st m ys (n, aw, vis) = (n', aw', vis') \<Longrightarrow>
   \<exists>ys1 ys2. ys = ys1 @ ys2 \<and> vis' = rev ys1 @ vis \<and> n' = n + length ys1"
proof (induction ys arbitrary: n aw vis)
  case Nil
  then show ?case by simp
next
  case (Cons t ts)
  show ?case
  proof (cases "aw - rect_width (tab_area (st t)) \<ge> 0 \<and> n < m")
    case True
    with Cons.prems have
      "admit_left st m ts (Suc n, aw - rect_width (tab_area (st t)), t # vis) = (n', aw', vis')"
      by simp
    from Cons.IH [OF this] obtain ys1 ys2 where
      "ts = ys1 @ ys2" "vis' = rev ys1 @ t # vis" "n' = Suc n + length ys1"
      by blast
    then have "t # ts = (t # ys1) @ ys2 \<and> vis' = rev (t # ys1) @ vis \<and> n' = n + length (t # ys1)"
      by simp
    then show ?thesis by blast
  next
    case False
    with Cons.prems have "vis' = vis \<and> n' = n" by (auto split: if_splits)
    then have "t # ts = [] @ (t # ts) \<and> vis' = rev [] @ vis \<and> n' = n + length ([]::nat list)"
      by simp
    then show ?thesis by blast
  qed
qed

lemma admit_right_split:
  "admit_right st ys (aw, vis) = (aw', vis') \<Longrightarrow> \<exists>ys1 ys2. ys = ys1 @ ys2 \<and> vis' = vis @ ys1"
proof (induction ys arbitrary: aw vis)
  case Nil
  then show ?case by simp
next
  case (Cons t ts)
  show ?case
  proof (cases "aw - rect_width (tab_area (st t)) \<ge> 0")
    case True
    with Cons.prems have
      "admit_right st ts (aw - rect_width (tab_area (st t)), vis @ [t]) = (aw', vis')"
      by simp
    from Cons.IH [OF this] obtain ys1 ys2 where "ts = ys1 @ ys2" "vis' = (vis @ [t]) @ ys1"
      by blast
    then have "t # ts = (t # ys1) @ ys2 \<and> vis' = vis @ (t # ys1)" by simp
    then show ?thesis by blast
  next
    case False
    with Cons.prems have "vis' = vis" by simp
    then have "t # ts = [] @ (t # ts) \<and> vis' = vis @ []" by simp
    then show ?thesis by blast
  qed
qed

lemma admit_extra_split:
  "admit_extra st ys (aw, vis) = (aw', vis') \<Longrightarrow>
   \<exists>ys1 ys2. ys = ys1 @ ys2 \<and> vis' = rev ys1 @ vis"
proof (induction ys arbitrary: aw vis)
  case Nil
  then show ?case by simp
next
  case (Cons t ts)
  show ?case
  proof (cases "aw - rect_width (tab_area (st t)) \<ge> 0")
    case True
    with Cons.prems have
      "admit_extra st ts (aw - rect_width (tab_area (st t)), t # vis) = (aw', vis')"
      by simp
    from Cons.IH [OF this] obtain ys1 ys2 where "ts = ys1 @ ys2" "vis' = rev ys1 @ t # vis"
      by blast
    then have "t # ts = (t # ys1) @ ys2 \<and> vis' = rev (t # ys1) @ vis" by simp
    then show ?thesis by blast
  next
    case False
    with Cons.prems have "vis' = vis" by simp
    then have "t # ts = [] @ (t # ts) \<and> vis' = rev [] @ vis" by simp
    then show ?thesis by blast
  qed
qed

lemma admitted_window:
  assumes c: "c < length (tabs g)"
  shows "\<exists>A B R1 R2. tabs g = A @ (B @ [tabs g ! c] @ R1) @ R2 \<and>
           admitted tk alloc g c = B @ [tabs g ! c] @ R1"
proof -
  let ?xs = "tabs g"
  let ?st = "tab_store g"
  let ?m = "case list_index (visible_tabs g) (?xs ! c) of Some i \<Rightarrow> i | None \<Rightarrow> length ?xs"
  let ?aw = "strip_width tk alloc - rect_width (tab_area (?st (?xs ! c)))"
  have slice: "py_slice_to ?xs (int c) = take c ?xs"
    by (simp add: py_slice_to_def)
  obtain count aw1 vis1 where l:
    "admit_left ?st ?m (rev (take c ?xs)) (0, ?aw, []) = (count, aw1, vis1)"
    by (metis prod_cases3)
  from admit_left_split [OF l] obtain ys1 ys2 where
    ys: "rev (take c ?xs) = ys1 @ ys2" "vis1 = rev ys1" "count = length ys1"
    by auto
  from ys(1) have L: "take c ?xs = rev ys2 @ rev ys1"
    by (metis rev_append rev_rev_ident)
  have "length (take c ?xs) = c" using c by simp
  with L have len: "length ys2 + length ys1 = c" by (metis length_append length_rev)
  have xs: "?xs = take c ?xs @ [?xs ! c] @ drop (Suc c) ?xs"
    using id_take_nth_drop [OF c] by simp
  have cc: "c - count = length ys2" "length ys2 \<le> c"
    using len ys(3) by arith+
  have "take (c - count) ?xs = take (length ys2) (take c ?xs)"
    using cc by (simp add: min_def)
  also have "\<dots> = rev ys2" by (simp add: L)
  finally have L1: "take (c - count) ?xs = rev ys2" .
  have slice2: "py_slice_to ?xs (int c - int count) = rev ys2"
  proof -
    have le: "count \<le> c" using len ys(3) by arith
    then have "py_slice_to ?xs (int c - int count) = take (nat (int c - int count)) ?xs"
      by (simp add: py_slice_to_def)
    moreover have "nat (int c - int count) = c - count" using le by arith
    ultimately show ?thesis using L1 by (simp only:)
  qed
  obtain aw2 vis3 where r:
    "admit_right ?st (drop (c + 1) ?xs) (aw1, vis1 @ [?xs ! c]) = (aw2, vis3)"
    by (metis surj_pair)
  from admit_right_split [OF r] obtain R1 R2 where
    R: "drop (c + 1) ?xs = R1 @ R2" "vis3 = (vis1 @ [?xs ! c]) @ R1"
    by blast
  obtain aw3 vis4 where e: "admit_extra ?st (rev (rev ys2)) (aw2, vis3) = (aw3, vis4)"
    by (metis surj_pair)
  from admit_extra_split [OF e] obtain zs1 zs2 where
    Z: "rev (rev ys2) = zs1 @ zs2" "vis4 = rev zs1 @ vis3"
    by blast
  from Z(1) have Z': "rev ys2 = rev zs2 @ rev zs1" by simp
  have adm: "admitted tk alloc g c = vis4"
    using l r e by (simp add: admitted_def slice slice2 Let_def)
  have v: "vis4 = (rev zs1 @ rev ys1) @ [?xs ! c] @ R1"
    using Z(2) R(2) ys(2) by simp
  have T: "take c ?xs = rev zs2 @ rev zs1 @ rev ys1"
    using L Z' by simp
  have D: "drop (Suc c) ?xs = R1 @ R2"
    using R(1) by simp
  have "take c ?xs @ [?xs ! c] @ drop (Suc c) ?xs =
        rev zs2 @ ((rev zs1 @ rev ys1) @ [?xs ! c] @ R1) @ R2"
    by (simp only: T D append_assoc)
  with xs have "?xs = rev zs2 @ ((rev zs1 @ rev ys1) @ [?xs ! c] @ R1) @ R2"
    by (rule trans)
  with adm v show ?thesis by blast
qed

lemma one_tab_fields:
  "tabs one_tab = [0]" "current_index one_tab = Some 0" "visible_tabs one_tab = []"
  "rect_width (tab_area (tab_store one_tab 0)) = 78"
  by (simp_all add: one_tab_def empty_group_def DockGroup_init_def append_item_def do_add_def
      item_num_def set_current_item_def Let_def do_size_request_def example_toolkit_def
      natural_width_def
      enumerate_eq_zip frame_width_def spacing_def border_width_def set_area_width_def
      set_area_height_def Rectangle_def)

lemma example_widths:
  "strip_width example_toolkit wide_alloc = 263"
  "strip_width example_toolkit narrow_alloc = 23"
  "normal_width example_toolkit 0 = 82"
  "natural_width example_toolkit 0 = 78"
  by (simp_all add: strip_width_def normal_width_def natural_width_def example_toolkit_def
      wide_alloc_def
      narrow_alloc_def frame_width_def spacing_def)

text \<open>A size request leaves every tab of the group at its natural width.\<close>

lemma size_request_tabs_width:
  "rect_width (tab_area (fst (size_request_tabs tk cur xs (st, dw, dh)) r)) =
     (if r \<in> snd ` set xs then natural_width tk r else rect_width (tab_area (st r)))"
proof (induction xs arbitrary: st dw dh)
  case Nil
  show ?case by simp
next
  case (Cons p xs)
  obtain index q where p: "p = (index, q)" by (cases p)
  obtain iw ih lw lh bw bh where req:
    "image_req tk q = (iw, ih)" "label_req tk q = (lw, lh)" "button_req tk q = (bw, bh)"
    by (metis surj_pair)
  let ?h = "frame_width + spacing + max ih (max lh bh) + spacing + frame_width"
  let ?st = "st(q := set_area_height ?h (set_area_width (natural_width tk q) (st q)))"
  let ?dw = "if Some index = cur then natural_width tk q - lw else dw"
  have step: "size_request_tabs tk cur (p # xs) (st, dw, dh) =
              size_request_tabs tk cur xs (?st, ?dw, max dh ?h)"
    by (simp add: p req Let_def)
  have st: "rect_width (tab_area (?st r)) =
              (if r = q then natural_width tk r else rect_width (tab_area (st r)))"
    by simp
  have m: "r \<in> snd ` set (p # xs) \<longleftrightarrow> r = q \<or> r \<in> snd ` set xs"
    by (simp add: p)
  show ?case
    unfolding m step Cons.IH [of ?st ?dw "max dh ?h"] st by simp
qed

lemma do_size_request_width:
  assumes "r \<in> set (tabs g)"
  shows "rect_width (tab_area (tab_store (fst (do_size_request tk g)) r)) = natural_width tk r"
proof -
  obtain st dw dh where e:
    "size_request_tabs tk (current_index g) (enumerate 0 (tabs g)) (tab_store g, 0, 0) = (st, dw, dh)"
    by (metis prod_cases3)
  have "r \<in> snd ` set (enumerate 0 (tabs g))"
    using assms by (metis list.set_map map_snd_enumerate)
  then have "rect_width (tab_area (st r)) = natural_width tk r"
    using size_request_tabs_width [of tk "current_index g" "enumerate 0 (tabs g)" "tab_store g" 0 0 r] e
    by simp
  then show ?thesis
    using e by (simp add: do_size_request_def Let_def split: prod.splits)
qed

lemma admitted_one_tab: "admitted tk alloc one_tab 0 = [0]"
  by (simp add: admitted_def one_tab_fields py_slice_to_def Let_def)

lemma wide_layout_fields:
  "\<not> isl wide_layout" "visible_tabs (projr wide_layout) = [0]"
  "rect_width (tab_area (tab_store (projr wide_layout) 0)) = 78"
  using do_size_allocate_returns [of one_tab 0 example_toolkit wide_alloc]
  by (simp_all add: wide_layout_def one_tab_fields admitted_one_tab place_tabs_width
      update_visibility_area lone_tab_def example_widths Let_def)

lemma narrow_layout_fields:
  "\<not> isl narrow_layout" "visible_tabs (projr narrow_layout) = [0]"
  "rect_width (tab_area (tab_store (projr narrow_layout) 0)) = 23"
  using do_size_allocate_returns [of one_tab 0 example_toolkit narrow_alloc]
  by (simp_all add: narrow_layout_def one_tab_fields admitted_one_tab place_tabs_width
      update_visibility_area lone_tab_def example_widths Let_def)




text \<open>
  C3, as the claim states it, fails: the group of one tab, whose natural width after
  its size request is 78, is laid out in an allocation of width 300. The tab is the
  only visible one and the strip is 263 wide, yet the tab's width stays 78.
\<close>

theorem lone_tab_not_widened:
  "\<not> isl wide_layout \<and> visible_tabs (projr wide_layout) = [0] \<and>
   tabs one_tab = [0] \<and> current_index one_tab = Some 0 \<and>
   strip_width example_toolkit wide_alloc = 263 \<and>
   natural_width example_toolkit 0 = 78 \<and>
   rect_width (tab_area (tab_store (projr wide_layout) 0)) = 78 \<and>
   rect_width (tab_area (tab_store (projr wide_layout) 0)) \<noteq>
     strip_width example_toolkit wide_alloc"
  by (simp add: wide_layout_fields one_tab_fields example_widths)

text \<open>
  C3, amended. When a layout pass leaves exactly one visible tab, that tab is the
  current one. It is fitted to the strip (the allocation's width less decoration
  buttons, spacing and frame), not spread over it: a strip no wider than the tab's
  natural width becomes the tab's width, and in a strip wider than the natural width
  the tab keeps the width it had before the pass. The pass compares the strip with
  \<open>normal_width\<close>, which takes the close button's height where the natural width
  takes its width; for strips that lie between these two widths nothing is stated.
\<close>

theorem lone_tab_width:
  assumes "do_size_allocate tk alloc g = Inr g'" "tabs g \<noteq> []" "current_index g = Some c"
    "length (visible_tabs g') = 1"
  shows "visible_tabs g' = [tabs g ! c] \<and>
    (strip_width tk alloc \<le> natural_width tk (tabs g ! c) \<and>
     strip_width tk alloc \<le> normal_width tk (tabs g ! c) \<longrightarrow>
       rect_width (tab_area (tab_store g' (tabs g ! c))) = strip_width tk alloc) \<and>
    (strip_width tk alloc > natural_width tk (tabs g ! c) \<and>
     strip_width tk alloc > normal_width tk (tabs g ! c) \<longrightarrow>
       rect_width (tab_area (tab_store g' (tabs g ! c))) =
       rect_width (tab_area (tab_store g (tabs g ! c))))"
proof -
  from assms(1,2,3) have c: "c < length (tabs g)"
    by (auto simp: do_size_allocate_def admit_tabs_def split: if_splits sum.splits)
  note r = do_size_allocate_returns [OF assms(3) c, of tk alloc]
  from assms(1) r have g': "visible_tabs g' = admitted tk alloc g c"
    "tab_store g' = place_tabs (admitted tk alloc g c) 0
                    (update_visibility (tabs g) (admitted tk alloc g c) c
                       (if length (admitted tk alloc g c) = 1
                        then lone_tab tk alloc (tabs g ! c) (tab_store g) else tab_store g))"
    by auto
  from admitted_window [OF c, of tk alloc] obtain A B R1 R2 where
    "tabs g = A @ (B @ [tabs g ! c] @ R1) @ R2"
    and w: "admitted tk alloc g c = B @ [tabs g ! c] @ R1"
    by blast
  with assms(4) g'(1) have "B = [] \<and> R1 = []" by simp
  with w g'(1) have v: "visible_tabs g' = [tabs g ! c]" by simp
  have len: "length (admitted tk alloc g c) = 1" using assms(4) g'(1) by simp
  have "rect_width (tab_area (tab_store g' (tabs g ! c))) =
        rect_width (tab_area (lone_tab tk alloc (tabs g ! c) (tab_store g) (tabs g ! c)))"
    by (simp add: g'(2) len place_tabs_width update_visibility_area)
  then show ?thesis using v by (simp add: lone_tab_def Let_def)
qed

theorem lone_tab_width_witness:
  "do_size_allocate example_toolkit narrow_alloc one_tab = Inr (projr narrow_layout) \<and>
   do_size_allocate example_toolkit wide_alloc one_tab = Inr (projr wide_layout) \<and>
   tabs one_tab \<noteq> [] \<and> current_index one_tab = Some 0 \<and>
   length (visible_tabs (projr narrow_layout)) = 1 \<and>
   length (visible_tabs (projr wide_layout)) = 1 \<and>
   strip_width example_toolkit narrow_alloc \<le> natural_width example_toolkit (tabs one_tab ! 0) \<and>
   strip_width example_toolkit narrow_alloc \<le> normal_width example_toolkit (tabs one_tab ! 0) \<and>
   rect_width (tab_area (tab_store (projr narrow_layout) (tabs one_tab ! 0))) =
     strip_width example_toolkit narrow_alloc \<and>
   strip_width example_toolkit wide_alloc > natural_width example_toolkit (tabs one_tab ! 0) \<and>
   strip_width example_toolkit wide_alloc > normal_width example_toolkit (tabs one_tab ! 0) \<and>
   rect_width (tab_area (tab_store (projr wide_layout) (tabs one_tab ! 0))) =
     rect_width (tab_area (tab_store one_tab (tabs one_tab ! 0)))"
proof -
  have n: "do_size_allocate example_toolkit narrow_alloc one_tab = Inr (projr narrow_layout)"
    using narrow_layout_fields(1) by (simp add: narrow_layout_def)
  have w: "do_size_allocate example_toolkit wide_alloc one_tab = Inr (projr wide_layout)"
    using wide_layout_fields(1) by (simp add: wide_layout_def)
  show ?thesis
    using lone_tab_width [OF n, of 0] lone_tab_width [OF w, of 0] n w
    by (simp add: one_tab_fields narrow_layout_fields wide_layout_fields example_widths)
qed


section \<open>Drag motion: the parent's magic borders come first\<close>

text \<open>
  C6. The drag-motion handler of a DockGroup or DockPaned is its body wrapped by
  \<open>with_magic_borders\<close>. The wrapper first asks the parent's \<open>magic_borders\<close>, at the
  parent's pointer position. Without a parent the result is the body's. When the
  parent answers, the answer and the world the parent left are the result, whatever
  the body is: the body is not run. When the parent has no answer, the result is
  the body's, run in the world the parent left.
\<close>

theorem magic_borders_first:
  "(wtype widget = DockGroupT \<longrightarrow>
      drag_motion group_body paned_body widget context x y timestamp s =
      with_magic_borders group_body widget context x y timestamp s) \<and>
   (wtype widget = DockPanedT \<longrightarrow>
      drag_motion group_body paned_body widget context x y timestamp s =
      with_magic_borders paned_body widget context x y timestamp s) \<and>
   (get_parent widget = None \<longrightarrow>
      with_magic_borders func widget context x y timestamp s =
      func widget context x y timestamp s) \<and>
   (\<forall>parent d s1.
      get_parent widget = Some parent \<and>
      magic_borders parent context (fst (get_pointer parent)) (snd (get_pointer parent))
        timestamp s = (Some d, s1) \<longrightarrow>
      with_magic_borders func widget context x y timestamp s = (Some d, s1)) \<and>
   (\<forall>parent s1.
      get_parent widget = Some parent \<and>
      magic_borders parent context (fst (get_pointer parent)) (snd (get_pointer parent))
        timestamp s = (None, s1) \<longrightarrow>
      with_magic_borders func widget context x y timestamp s =
      func widget context x y timestamp s1)"
  by (cases widget)
    (auto simp: with_magic_borders_def propagate_to_parent_def split: prod.splits)

lemma magic_borders_examples:
  "fst (magic_borders paned_at_border 0 200 3 0 quiet) =
     Some \<lparr>drop_widget = Some 2, leave = Some dock_paned_magic_borders_leave, received = None\<rparr>"
  "stdout (snd (magic_borders paned_at_border 0 200 3 0 quiet)) =
     [''MAGIC happens here'', ''HORIZONTAL'', ''Add new DockPaned and add DockGroup'']"
  "magic_borders paned_inside 0 200 150 0 quiet = (None, py_print ''MAGIC happens here'' quiet)"
  by (simp_all add: magic_borders_def dock_paned_magic_borders_def paned_at_border_def
      paned_inside_def alloc_400_300_def MAGIC_BORDER_SIZE_def handle_def py_print_def quiet_def
      Let_def)

theorem magic_borders_first_witness:
  "get_parent group_a = None \<and>
   with_magic_borders example_body group_a 0 7 8 0 quiet = example_body group_a 0 7 8 0 quiet \<and>
   get_parent group_at_border = Some paned_at_border \<and>
   fst (with_magic_borders example_body group_at_border 0 7 8 0 quiet) =
     Some \<lparr>drop_widget = Some 2, leave = Some dock_paned_magic_borders_leave, received = None\<rparr> \<and>
   stdout (snd (with_magic_borders example_body group_at_border 0 7 8 0 quiet)) =
     [''MAGIC happens here'', ''HORIZONTAL'', ''Add new DockPaned and add DockGroup''] \<and>
   get_parent group_inside = Some paned_inside \<and>
   with_magic_borders example_body group_inside 0 7 8 0 quiet =
     example_body group_inside 0 7 8 0 (py_print ''MAGIC happens here'' quiet)"
proof -
  have p: "get_pointer paned_at_border = (200, 3)" "get_pointer paned_inside = (200, 150)"
    "get_parent group_at_border = Some paned_at_border"
    "get_parent group_inside = Some paned_inside" "get_parent group_a = None"
    by (simp_all add: paned_at_border_def paned_inside_def group_at_border_def group_inside_def
        group_a_def)
  obtain d s1 where m: "magic_borders paned_at_border 0 200 3 0 quiet = (Some d, s1)"
    using magic_borders_examples(1) by (metis fst_conv surj_pair)
  from magic_borders_first [of group_at_border _ _ 0 7 8 0 quiet example_body] p m
  have a: "with_magic_borders example_body group_at_border 0 7 8 0 quiet = (Some d, s1)"
    by simp
  from magic_borders_first [of group_inside _ _ 0 7 8 0 quiet example_body] p
    magic_borders_examples(3)
  have b: "with_magic_borders example_body group_inside 0 7 8 0 quiet =
     example_body group_inside 0 7 8 0 (py_print ''MAGIC happens here'' quiet)"
    by simp
  from magic_borders_first [of group_a _ _ 0 7 8 0 quiet example_body] p
  have c: "with_magic_borders example_body group_a 0 7 8 0 quiet =
     example_body group_a 0 7 8 0 quiet"
    by simp
  show ?thesis
    using a b c p m magic_borders_examples(1,2) by simp
qed


section \<open>Drag motion: the session and its leave callback\<close>

text \<open>
  C7. A drag-motion event, in any state of the layout and so at any point of a
  sequence of events, resolves a new drop target. When that target is the tracked
  one, the layout is left as it is and no leave callback runs: the world is the one
  the resolution left. When the target differs, the leave callback of the stored
  session, if there is one, is applied once to that world, and after it the slot is
  replaced by the new drag data (an exception out of the callback passes on and the
  slot keeps the old data).
\<close>

theorem drag_motion_session:
  assumes "drag_motion group_body paned_body widget context x y timestamp s = (new_data, s1)"
  shows
    "(drop_widget_of new_data = drop_widget_of (drag_data self) \<longrightarrow>
        on_widget_drag_motion group_body paned_body self widget context x y timestamp s =
        (None, self, s1)) \<and>
     (drop_widget_of new_data \<noteq> drop_widget_of (drag_data self) \<longrightarrow>
        on_widget_drag_motion group_body paned_body self widget context x y timestamp s =
        (case drag_data self of
           None \<Rightarrow> (None, self\<lparr>drag_data := new_data\<rparr>, s1)
         | Some dd \<Rightarrow>
             (case leave dd of
                None \<Rightarrow> (None, self\<lparr>drag_data := new_data\<rparr>, s1)
              | Some f \<Rightarrow>
                  (case f (drop_widget dd) s1 of
                     (None, s2) \<Rightarrow> (None, self\<lparr>drag_data := new_data\<rparr>, s2)
                   | (Some e, s2) \<Rightarrow> (Some e, self, s2)))))"
  using assms
  by (auto simp: on_widget_drag_motion_def on_widget_drag_leave_def
      split: option.splits prod.splits)

lemma drag_motion_group_a:
  "drag_motion example_body example_body group_a 0 7 8 0 s = example_body group_a 0 7 8 0 s"
  "drag_motion example_body example_body group_b 0 7 8 0 s = example_body group_b 0 7 8 0 s"
  by (simp_all add: group_a_def group_b_def with_magic_borders_def propagate_to_parent_def)

theorem drag_motion_session_witness:
  "drop_widget_of (drag_data layout_on_a) = Some 5 \<and>
   fst (drag_motion example_body example_body group_a 0 7 8 0 quiet) =
     fst (example_body group_a 0 7 8 0 quiet) \<and>
   drop_widget_of (fst (example_body group_a 0 7 8 0 quiet)) = Some 5 \<and>
   on_widget_drag_motion example_body example_body layout_on_a group_a 0 7 8 0 quiet =
     (None, layout_on_a, py_print ''body'' quiet) \<and>
   drop_widget_of (fst (example_body group_b 0 7 8 0 quiet)) = Some 6 \<and>
   on_widget_drag_motion example_body example_body layout_on_a group_b 0 7 8 0 quiet =
     (None, layout_on_a\<lparr>drag_data := fst (example_body group_b 0 7 8 0 quiet)\<rparr>,
      \<lparr>stdout = [''body'', ''leave'']\<rparr>)"
proof -
  have a: "drag_motion example_body example_body group_a 0 7 8 0 quiet =
             (fst (example_body group_a 0 7 8 0 quiet), py_print ''body'' quiet)"
    by (simp add: drag_motion_group_a example_body_def)
  have b: "drag_motion example_body example_body group_b 0 7 8 0 quiet =
             (fst (example_body group_b 0 7 8 0 quiet), py_print ''body'' quiet)"
    by (simp add: drag_motion_group_a example_body_def)
  have t: "drop_widget_of (drag_data layout_on_a) = Some 5"
    "drop_widget_of (fst (example_body group_a 0 7 8 0 quiet)) = Some 5"
    "drop_widget_of (fst (example_body group_b 0 7 8 0 quiet)) = Some 6"
    by (simp_all add: layout_on_a_def drop_widget_of_def example_body_def group_a_def group_b_def)
  have l: "drag_data layout_on_a =
      Some \<lparr>drop_widget = Some 5, leave = Some example_leave, received = Some example_received\<rparr>"
    by (simp add: layout_on_a_def)
  show ?thesis
    using drag_motion_session [OF a, of layout_on_a] drag_motion_session [OF b, of layout_on_a]
      a t
    by (simp add: l example_leave_def py_print_def quiet_def)
qed


section \<open>Drag data received: the slot is emptied\<close>

text \<open>
  C8. With no drag data in the slot, or drag data without a received callback,
  \<open>on_widget_drag_data_received\<close> raises and changes nothing. When the callback is
  called, the handler passes on what the callback returned or raised, and the slot
  is empty afterwards in both cases.
\<close>

theorem drag_data_received_clears:
  "(drag_data self = None \<longrightarrow>
      on_widget_drag_data_received self selection_data info s = (Some AttributeError, self, s)) \<and>
   (\<forall>dd. drag_data self = Some dd \<and> received dd = None \<longrightarrow>
      on_widget_drag_data_received self selection_data info s = (Some AssertionError, self, s)) \<and>
   (\<forall>dd f. drag_data self = Some dd \<and> received dd = Some f \<longrightarrow>
      on_widget_drag_data_received self selection_data info s =
        (fst (f selection_data info s), self\<lparr>drag_data := None\<rparr>, snd (f selection_data info s)) \<and>
      drag_data (fst (snd (on_widget_drag_data_received self selection_data info s))) = None)"
  by (auto simp: on_widget_drag_data_received_def split: prod.splits)

theorem drag_data_received_clears_witness:
  "drag_data (DockLayout_init :: world DockLayout) = None \<and>
   on_widget_drag_data_received (DockLayout_init :: world DockLayout) 0 0 quiet =
     (Some AttributeError, DockLayout_init, quiet) \<and>
   on_widget_drag_data_received layout_no_received 0 0 quiet =
     (Some AssertionError, layout_no_received, quiet) \<and>
   fst (on_widget_drag_data_received layout_on_a 0 0 quiet) = None \<and>
   drag_data (fst (snd (on_widget_drag_data_received layout_on_a 0 0 quiet))) = None \<and>
   fst (on_widget_drag_data_received layout_failing 0 0 quiet) = Some (Raised ''received failed'') \<and>
   drag_data (fst (snd (on_widget_drag_data_received layout_failing 0 0 quiet))) = None"
  using drag_data_received_clears [of "DockLayout_init :: world DockLayout" 0 0 quiet]
    drag_data_received_clears [of layout_no_received 0 0 quiet]
    drag_data_received_clears [of layout_on_a 0 0 quiet]
    drag_data_received_clears [of layout_failing 0 0 quiet]
  by (simp add: DockLayout_init_def layout_no_received_def layout_on_a_def layout_failing_def
      example_received_def failing_received_def)


section \<open>Signal handlers: installed once, removed only when present\<close>

lemma connect_all_nonempty:
  "connect_all w names (S, G) = (S', G') \<Longrightarrow> S \<subseteq> S' \<and> (names \<noteq> [] \<longrightarrow> S' \<noteq> {})"
proof (induction names arbitrary: S G)
  case Nil
  then show ?case by simp
next
  case (Cons name names)
  from Cons.prems Cons.IH [of "insert (next_handler_id G) S"] show ?case
    by auto
qed

lemma signals_nonempty:
  "connect_all w signal_names ({}, G) = (S', G') \<Longrightarrow> S' \<noteq> {}"
  using connect_all_nonempty [of w signal_names "{}" G S' G']
  by (simp add: signal_names_def)

lemma fold_keeps:
  assumes "\<And>k st. k \<in> set kids \<Longrightarrow> P st \<Longrightarrow> P (f k st)" "P st"
  shows "P (fold f kids st)"
  using assms by (induction kids arbitrary: st) auto

lemma add_keeps_entry:
  "signal_handlers (fst st) v = Some S \<Longrightarrow> S \<noteq> {} \<Longrightarrow>
   signal_handlers (fst (add_signal_handlers w st)) v = Some S"
proof (induction w st rule: add_signal_handlers.induct)
  case (1 w cont kids self G)
  show ?case
  proof (cases "case signal_handlers self w of None \<Rightarrow> False | Some sigs \<Rightarrow> sigs \<noteq> {}")
    case True
    then show ?thesis using "1.prems" by simp
  next
    case False
    obtain signals G1 where c:
      "connect_all w signal_names ({}, G\<lparr>drag_dest := insert w (drag_dest G)\<rparr>) = (signals, G1)"
      by (metis surj_pair)
    let ?self1 = "self\<lparr>signal_handlers := (signal_handlers self)(w \<mapsto> signals)\<rparr>"
    from False "1.prems" have "v \<noteq> w" by auto
    then have s1: "signal_handlers (fst (?self1, G1)) v = Some S" using "1.prems" by simp
    show ?thesis
    proof (cases cont)
      case True
      have "signal_handlers (fst (fold add_signal_handlers kids (?self1, G1))) v = Some S"
      proof (rule fold_keeps [where P = "\<lambda>st. signal_handlers (fst st) v = Some S"])
        fix k and st :: "'a DockLayout \<times> gtk_signals"
        assume "k \<in> set kids" "signal_handlers (fst st) v = Some S"
        then show "signal_handlers (fst (add_signal_handlers k st)) v = Some S"
          using "1.IH" [OF False refl refl c [symmetric] refl True] "1.prems"(2) by blast
      qed (rule s1)
      then show ?thesis using False c True by (simp add: Let_def)
    next
      case nc: False
      then show ?thesis using False c s1 by (simp add: Let_def)
    qed
  qed
qed

lemma add_sets_entry:
  "\<exists>S. signal_handlers (fst (add_signal_handlers (WTree w cont kids) (self, G))) w = Some S \<and>
       S \<noteq> {}"
proof (cases "case signal_handlers self w of None \<Rightarrow> False | Some sigs \<Rightarrow> sigs \<noteq> {}")
  case True
  then show ?thesis by (auto split: option.splits)
next
  case False
  obtain signals G1 where c:
    "connect_all w signal_names ({}, G\<lparr>drag_dest := insert w (drag_dest G)\<rparr>) = (signals, G1)"
    by (metis surj_pair)
  let ?self1 = "self\<lparr>signal_handlers := (signal_handlers self)(w \<mapsto> signals)\<rparr>"
  have ne: "signals \<noteq> {}" using c by (rule signals_nonempty)
  have s1: "signal_handlers (fst (?self1, G1)) w = Some signals" by simp
  have "signal_handlers (fst (fold add_signal_handlers kids (?self1, G1))) w = Some signals"
  proof (rule fold_keeps [where P = "\<lambda>st. signal_handlers (fst st) w = Some signals"])
    fix k and st :: "'a DockLayout \<times> gtk_signals"
    assume "signal_handlers (fst st) w = Some signals"
    then show "signal_handlers (fst (add_signal_handlers k st)) w = Some signals"
      using ne by (rule add_keeps_entry)
  qed (rule s1)
  then show ?thesis using False c ne by (auto simp: Let_def)
qed

lemma add_signal_handlers_present:
  assumes "signal_handlers self (tree_wid w) = Some S" "S \<noteq> {}"
  shows "add_signal_handlers w (self, G) = (self, G)"
  using assms by (cases w) simp

lemma add_twice:
  "add_signal_handlers w (add_signal_handlers w (self, G)) = add_signal_handlers w (self, G)"
proof -
  obtain i cont kids where w: "w = WTree i cont kids" by (cases w)
  obtain self' G' where r: "add_signal_handlers w (self, G) = (self', G')" by (metis surj_pair)
  from add_sets_entry [of i cont kids self G] w r obtain S where
    "signal_handlers self' i = Some S" "S \<noteq> {}" by auto
  then show ?thesis using w r by (simp add: add_signal_handlers_present)
qed

lemma remove_signal_handlers_absent:
  "signal_handlers self (tree_wid w) = None \<Longrightarrow> remove_signal_handlers w (self, G) = (self, G)"
  by (cases w) simp

lemma handlers_ok_init: "handlers_ok DockLayout_init"
  by (simp add: handlers_ok_def DockLayout_init_def)

lemma add_signal_handlers_ok:
  "handlers_ok (fst st) \<Longrightarrow> handlers_ok (fst (add_signal_handlers w st))"
proof (induction w st rule: add_signal_handlers.induct)
  case (1 w cont kids self G)
  show ?case
  proof (cases "case signal_handlers self w of None \<Rightarrow> False | Some sigs \<Rightarrow> sigs \<noteq> {}")
    case True
    then show ?thesis using "1.prems" by simp
  next
    case False
    obtain signals G1 where c:
      "connect_all w signal_names ({}, G\<lparr>drag_dest := insert w (drag_dest G)\<rparr>) = (signals, G1)"
      by (metis surj_pair)
    let ?self1 = "self\<lparr>signal_handlers := (signal_handlers self)(w \<mapsto> signals)\<rparr>"
    have ne: "signals \<noteq> {}" using c by (rule signals_nonempty)
    have s1: "handlers_ok (fst (?self1, G1))"
      using "1.prems" ne by (auto simp: handlers_ok_def ran_def)
    show ?thesis
    proof (cases cont)
      case True
      have "handlers_ok (fst (fold add_signal_handlers kids (?self1, G1)))"
      proof (rule fold_keeps [where P = "\<lambda>st. handlers_ok (fst st)"])
        fix k and st :: "'a DockLayout \<times> gtk_signals"
        assume "k \<in> set kids" "handlers_ok (fst st)"
        then show "handlers_ok (fst (add_signal_handlers k st))"
          using "1.IH" [OF False refl refl c [symmetric] refl True] by blast
      qed (rule s1)
      then show ?thesis using False c True by (simp add: Let_def)
    next
      case nc: False
      then show ?thesis using False c s1 by (simp add: Let_def)
    qed
  qed
qed

lemma remove_signal_handlers_ok:
  "handlers_ok (fst st) \<Longrightarrow> handlers_ok (fst (remove_signal_handlers w st))"
proof (induction w st rule: remove_signal_handlers.induct)
  case (1 w cont kids self G)
  show ?case
  proof (cases "signal_handlers self w")
    case None
    then show ?thesis using "1.prems" by simp
  next
    case (Some signals)
    let ?self1 = "self\<lparr>signal_handlers := (signal_handlers self)(w := None)\<rparr>"
    let ?G1 = "disconnect_all w signals G"
    have s1: "handlers_ok (fst (?self1, ?G1))"
      using "1.prems" by (auto simp: handlers_ok_def ran_def split: if_splits)
    show ?thesis
    proof (cases cont)
      case True
      have "handlers_ok (fst (fold remove_signal_handlers kids (?self1, ?G1)))"
      proof (rule fold_keeps [where P = "\<lambda>st. handlers_ok (fst st)"])
        fix k and st :: "'a DockLayout \<times> gtk_signals"
        assume "k \<in> set kids" "handlers_ok (fst st)"
        then show "handlers_ok (fst (remove_signal_handlers k st))"
          using "1.IH" [OF Some refl refl True] by blast
      qed (rule s1)
      then show ?thesis using Some True by (simp add: Let_def)
    next
      case nc: False
      then show ?thesis using Some s1 by (simp add: Let_def)
    qed
  qed
qed

lemma installed_ok:
  "handlers_ok (fst installed)" "tree_wid frame_tree \<in> dom (signal_handlers (fst installed))"
proof -
  show "handlers_ok (fst installed)"
    unfolding installed_def
    by (rule add_signal_handlers_ok) (simp add: handlers_ok_init)
  show "tree_wid frame_tree \<in> dom (signal_handlers (fst installed))"
    using add_sets_entry [of 1 True "[WTree 2 True [WTree 3 True []], WTree 4 False []]"
        "DockLayout_init :: world DockLayout" no_signals]
    by (auto simp: installed_def frame_tree_def)
qed

text \<open>
  C10. \<open>remove_signal_handlers\<close> for a widget without an entry in the handler map
  returns the layout and the toolkit's connections as they were. In a layout whose
  entries are the non-empty sets \<open>add_signal_handlers\<close> writes (\<open>handlers_ok\<close>, which
  holds at the start and after every addition and removal), \<open>add_signal_handlers\<close>
  for a widget with an entry changes nothing and connects nothing; and adding the
  handlers for a widget a second time changes nothing.
\<close>

theorem signal_handlers_untouched:
  "(signal_handlers self (tree_wid w) = None \<longrightarrow>
      remove_signal_handlers w (self, G) = (self, G)) \<and>
   (handlers_ok self \<longrightarrow> tree_wid w \<in> dom (signal_handlers self) \<longrightarrow>
      add_signal_handlers w (self, G) = (self, G)) \<and>
   add_signal_handlers w (add_signal_handlers w (self, G)) = add_signal_handlers w (self, G)"
proof (intro conjI impI)
  assume "signal_handlers self (tree_wid w) = None"
  then show "remove_signal_handlers w (self, G) = (self, G)"
    by (rule remove_signal_handlers_absent)
next
  assume ok: "handlers_ok self" and d: "tree_wid w \<in> dom (signal_handlers self)"
  from d obtain S where S: "signal_handlers self (tree_wid w) = Some S" by auto
  with ok have "S \<noteq> {}" by (auto simp: handlers_ok_def ran_def)
  with S show "add_signal_handlers w (self, G) = (self, G)"
    by (rule add_signal_handlers_present)
next
  show "add_signal_handlers w (add_signal_handlers w (self, G)) = add_signal_handlers w (self, G)"
    by (rule add_twice)
qed

theorem signal_handlers_untouched_witness:
  "signal_handlers (DockLayout_init :: world DockLayout) (tree_wid frame_tree) = None \<and>
   remove_signal_handlers frame_tree (DockLayout_init :: world DockLayout, no_signals) =
     (DockLayout_init, no_signals) \<and>
   handlers_ok (fst installed) \<and>
   tree_wid frame_tree \<in> dom (signal_handlers (fst installed)) \<and>
   add_signal_handlers frame_tree installed = installed"
  using signal_handlers_untouched [of "DockLayout_init :: world DockLayout" frame_tree no_signals]
    signal_handlers_untouched [of "fst installed" frame_tree "snd installed"] installed_ok
  by (simp add: DockLayout_init_def)

end
